theory Spec2Isabelle
  imports Complex_Main "HOL-Library.Word" "HOL-Library.Sublist"
begin

section \<open>Python values and built-ins used by generate\_charts.py\<close>

text \<open>
  The script works on whatever \<^verbatim>\<open>json.loads\<close> returns, so the model keeps the
  dynamic typing: one datatype of JSON values. An object is the association list of
  the dict that was built (keys distinct, insertion order).
\<close>

subsection \<open>Floats\<close>

text \<open>
  A Python float is an IEEE 754 double: a real number of the form \<open>m * 2 ^ e\<close> with
  \<open>\<bar>m\<bar> < 2 ^ 53\<close> and \<open>- 1074 \<le> e\<close>, below \<open>2 ^ 1024\<close> in size, or one of the
  values inf, -inf and nan (\<^verbatim>\<open>json.loads\<close> reads them from the texts Infinity,
  -Infinity and NaN). The sign of zero is not modelled.
\<close>

datatype pyfloat = Fin real | PInf | NInf | NaN

text \<open>Round to nearest, ties to even: first to an integer, then to a double. The unit of
  the last place of \<open>x\<close> is \<open>2 ^ ulp_exponent x\<close>.\<close>

definition round_half_even :: "real \<Rightarrow> int" where
  "round_half_even q =
     (let f = \<lfloor>q\<rfloor>; r = q - of_int f
      in if r < 1 / 2 then f else if 1 / 2 < r then f + 1 else if even f then f else f + 1)"

definition ulp_exponent :: "real \<Rightarrow> int" where
  "ulp_exponent x = max (\<lfloor>log 2 \<bar>x\<bar>\<rfloor> - 52) (- 1074)"

definition round_double :: "real \<Rightarrow> real" where
  "round_double x =
     (if x = 0 then 0
      else of_int (round_half_even (x / 2 powr of_int (ulp_exponent x))) *
           2 powr of_int (ulp_exponent x))"

text \<open>The double for an exact result \<open>x\<close>: a result that rounds beyond the largest double
  is an infinity. A float literal of the source, such as \<^verbatim>\<open>0.2\<close>, is the double for its
  decimal value.\<close>

definition to_float :: "real \<Rightarrow> pyfloat" where
  "to_float x =
     (let r = round_double x
      in if 2 ^ 1024 \<le> r then PInf else if r \<le> - (2 ^ 1024) then NInf else Fin r)"

text \<open>\<^verbatim>\<open>a < b\<close> and \<^verbatim>\<open>a > b\<close> on floats (an int operand is converted, exactly for the
  constants of this script): every comparison with nan is false.\<close>

fun flt :: "pyfloat \<Rightarrow> pyfloat \<Rightarrow> bool" where
  "flt (Fin a) (Fin b) = (a < b)"
| "flt (Fin a) PInf = True"
| "flt NInf (Fin b) = True"
| "flt NInf PInf = True"
| "flt _ _ = False"

definition fgt :: "pyfloat \<Rightarrow> pyfloat \<Rightarrow> bool" where
  "fgt a b = flt b a"

subsection \<open>JSON values\<close>

datatype json =
    JNull
  | JBool bool
  | JInt int
  | JFloat pyfloat
  | JStr string
  | JArr "json list"
  | JObj "(string \<times> json) list"

text \<open>The exceptions that can travel through the script; all are subclasses of
  Python's \<^verbatim>\<open>Exception\<close>, which is what every \<^verbatim>\<open>except\<close> clause of the source names.\<close>

datatype exn =
    UnicodeDecodeError
  | JSONDecodeError
  | AttributeError
  | TypeError
  | ValueError
  | OverflowError
  | ZeroDivisionError
  | LibraryError string

type_synonym 'a result = "exn + 'a"

type_synonym byte = "8 word"

definition bind_res :: "'a result \<Rightarrow> ('a \<Rightarrow> 'b result) \<Rightarrow> 'b result" where
  "bind_res m f = (case m of Inl e \<Rightarrow> Inl e | Inr x \<Rightarrow> f x)"

text \<open>A list comprehension whose element expression may raise: elements are evaluated
  left to right and the first exception ends the comprehension.\<close>

fun map_res :: "('a \<Rightarrow> 'b result) \<Rightarrow> 'a list \<Rightarrow> 'b list result" where
  "map_res f [] = Inr []"
| "map_res f (x # xs) =
     (case f x of
        Inl e \<Rightarrow> Inl e
      | Inr y \<Rightarrow> (case map_res f xs of Inl e \<Rightarrow> Inl e | Inr ys \<Rightarrow> Inr (y # ys)))"

text \<open>Truth value of an object, as \<^verbatim>\<open>not x\<close>, \<^verbatim>\<open>x or y\<close> and \<^verbatim>\<open>if x\<close> test it.\<close>

fun truthy :: "json \<Rightarrow> bool" where
  "truthy JNull = False"
| "truthy (JBool b) = b"
| "truthy (JInt n) = (n \<noteq> 0)"
| "truthy (JFloat x) = (x \<noteq> Fin 0)"
| "truthy (JStr s) = (s \<noteq> [])"
| "truthy (JArr xs) = (xs \<noteq> [])"
| "truthy (JObj kvs) = (kvs \<noteq> [])"

text \<open>\<^verbatim>\<open>x or []\<close>\<close>

definition or_empty_list :: "json \<Rightarrow> json" where
  "or_empty_list x = (if truthy x then x else JArr [])"

text \<open>\<^verbatim>\<open>s is not None\<close>\<close>

fun is_not_None :: "json \<Rightarrow> bool" where
  "is_not_None JNull = False"
| "is_not_None _ = True"

text \<open>\<^verbatim>\<open>d.get(key, default)\<close>: only a dict has the method; on any other value the
  attribute lookup raises AttributeError.\<close>

fun py_get :: "json \<Rightarrow> string \<Rightarrow> json \<Rightarrow> json result" where
  "py_get (JObj kvs) k d = Inr (case map_of kvs k of None \<Rightarrow> d | Some v \<Rightarrow> v)"
| "py_get _ k d = Inl AttributeError"

text \<open>\<^verbatim>\<open>for p in x\<close>: a list yields its elements, a dict its keys, a string its
  characters; the other JSON values are not iterable.\<close>

fun py_iter :: "json \<Rightarrow> json list result" where
  "py_iter (JArr xs) = Inr xs"
| "py_iter (JObj kvs) = Inr (map (\<lambda>kv. JStr (fst kv)) kvs)"
| "py_iter (JStr s) = Inr (map (\<lambda>c. JStr [c]) s)"
| "py_iter _ = Inl TypeError"

text \<open>\<^verbatim>\<open>max(a, b)\<close>: the second argument replaces the first when it is greater.\<close>

definition max2 :: "pyfloat \<Rightarrow> pyfloat \<Rightarrow> pyfloat" where
  "max2 a b = (if fgt b a then b else a)"

text \<open>\<^verbatim>\<open>max(xs)\<close> and \<^verbatim>\<open>min(xs)\<close> of a list: the first item, replaced by each later item
  that is greater (smaller); ValueError on the empty list.\<close>

fun py_max :: "pyfloat list \<Rightarrow> pyfloat result" where
  "py_max [] = Inl ValueError"
| "py_max (x # xs) = Inr (fold (\<lambda>y m. if fgt y m then y else m) xs x)"

fun py_min :: "pyfloat list \<Rightarrow> pyfloat result" where
  "py_min [] = Inl ValueError"
| "py_min (x # xs) = Inr (fold (\<lambda>y m. if flt y m then y else m) xs x)"

text \<open>\<^verbatim>\<open>a / b\<close> on floats: a zero divisor raises, the exact quotient of two finite
  operands is rounded to a double, and the infinities and nan follow IEEE 754.\<close>

fun py_truediv :: "pyfloat \<Rightarrow> pyfloat \<Rightarrow> pyfloat result" where
  "py_truediv a (Fin b) =
     (if b = 0 then Inl ZeroDivisionError
      else Inr (case a of
                  Fin x \<Rightarrow> to_float (x / b)
                | PInf \<Rightarrow> (if 0 < b then PInf else NInf)
                | NInf \<Rightarrow> (if 0 < b then NInf else PInf)
                | NaN \<Rightarrow> NaN))"
| "py_truediv (Fin x) PInf = Inr (Fin 0)"
| "py_truediv (Fin x) NInf = Inr (Fin 0)"
| "py_truediv a b = Inr NaN"

section \<open>The libraries the script calls\<close>

text \<open>
  A figure records what the script asks matplotlib to draw. The graph handed to
  networkx is the node list and the weighted edge list that the \<^verbatim>\<open>add_node\<close> and
  \<^verbatim>\<open>add_edge\<close> calls build.
\<close>

record graph =
  nodes :: "string list"
  edges :: "((string \<times> string) \<times> pyfloat) list"

datatype plot =
    Scatter "pyfloat list" "pyfloat list" "string list"
  | Histogram "pyfloat list" "pyfloat list"
  | Network graph "(string \<times> pyfloat \<times> pyfloat) list" "string list"

record figure =
  content :: plot
  log_x :: bool
  x_label :: string
  y_label :: string
  fig_title :: string

text \<open>
  Everything that is not code of the script is a field of the environment:
  the decoder of the text layer of standard input (\<^verbatim>\<open>sys.stdin.read()\<close> returns the
  decoded bytes, or raises UnicodeDecodeError when the codec is strict and rejects them),
  the JSON parser, the parser behind \<^verbatim>\<open>float(str)\<close>, \<^verbatim>\<open>str()\<close> of a non-string value,
  the rendering of a figure to PNG bytes (\<^verbatim>\<open>tight_layout\<close> and \<^verbatim>\<open>savefig\<close>), whether
  \<^verbatim>\<open>import networkx\<close> succeeded, the layout algorithm, whether the import of
  \<^verbatim>\<open>networkx_mcp.server\<close> succeeded, and that server's three calls, which act on a state
  of their own.
\<close>

record 's env =
  stdin_decode :: "byte list \<Rightarrow> string result"
  json_loads :: "string \<Rightarrow> json result"
  float_of_str :: "string \<Rightarrow> pyfloat option"
  repr :: "json \<Rightarrow> string"
  savefig :: "figure \<Rightarrow> byte list result"
  nx_available :: bool
  spring_layout :: "graph \<Rightarrow> (string \<times> pyfloat \<times> pyfloat) list result"
  HAS_NX_MCP :: bool
  mcp_state :: 's
  create_graph :: "string \<Rightarrow> string \<Rightarrow> 's \<Rightarrow> 's result"
  add_nodes :: "string \<Rightarrow> string list \<Rightarrow> 's \<Rightarrow> 's result"
  add_edges :: "string \<Rightarrow> (string \<times> string) list \<Rightarrow> 's \<Rightarrow> 's result"

text \<open>\<^verbatim>\<open>float(v)\<close>. An int is rounded to the nearest double, and raises when that is
  beyond the largest double; a bool is an int; a string goes through the float parser;
  None, lists and dicts are a TypeError.\<close>

fun py_float :: "'s env \<Rightarrow> json \<Rightarrow> pyfloat result" where
  "py_float E (JInt n) =
     (if \<bar>round_double (of_int n)\<bar> < 2 ^ 1024 then Inr (Fin (round_double (of_int n)))
      else Inl OverflowError)"
| "py_float E (JFloat x) = Inr x"
| "py_float E (JBool b) = Inr (Fin (if b then 1 else 0))"
| "py_float E (JStr s) =
     (case float_of_str E s of None \<Rightarrow> Inl ValueError | Some x \<Rightarrow> Inr x)"
| "py_float E _ = Inl TypeError"

text \<open>\<^verbatim>\<open>str(v)\<close>\<close>

fun py_str :: "'s env \<Rightarrow> json \<Rightarrow> string" where
  "py_str E (JStr s) = s"
| "py_str E JNull = ''None''"
| "py_str E (JBool b) = (if b then ''True'' else ''False'')"
| "py_str E v = repr E v"

section \<open>Base64 (RFC 4648), as \<^verbatim>\<open>base64.b64encode\<close> produces it\<close>

definition b64_alphabet :: string where
  "b64_alphabet = ''ABCDEFGHIJKLMNOPQRSTUVWXYZabcdefghijklmnopqrstuvwxyz0123456789+/''"

definition b64_char :: "nat \<Rightarrow> char" where
  "b64_char n = b64_alphabet ! n"

fun b64encode :: "byte list \<Rightarrow> string" where
  "b64encode [] = []"
| "b64encode [a] =
     (let n = unat a * 65536
      in [b64_char (n div 262144), b64_char (n div 4096 mod 64), CHR ''='', CHR ''=''])"
| "b64encode [a, b] =
     (let n = unat a * 65536 + unat b * 256
      in [b64_char (n div 262144), b64_char (n div 4096 mod 64),
          b64_char (n div 64 mod 64), CHR ''=''])"
| "b64encode (a # b # c # rest) =
     (let n = unat a * 65536 + unat b * 256 + unat c
      in [b64_char (n div 262144), b64_char (n div 4096 mod 64),
          b64_char (n div 64 mod 64), b64_char (n mod 64)] @ b64encode rest)"

text \<open>A strict decoder: groups of four alphabet characters, padding only in the last group.\<close>

fun index_of :: "char \<Rightarrow> string \<Rightarrow> nat option" where
  "index_of c [] = None"
| "index_of c (x # xs) = (if c = x then Some 0 else map_option Suc (index_of c xs))"

definition b64_index :: "char \<Rightarrow> nat option" where
  "b64_index c = index_of c b64_alphabet"

definition decode_group :: "char \<Rightarrow> char \<Rightarrow> char \<Rightarrow> char \<Rightarrow> nat option" where
  "decode_group c0 c1 c2 c3 =
     (case (b64_index c0, b64_index c1, b64_index c2, b64_index c3) of
        (Some i0, Some i1, Some i2, Some i3) \<Rightarrow> Some (i0 * 262144 + i1 * 4096 + i2 * 64 + i3)
      | _ \<Rightarrow> None)"

fun b64decode :: "string \<Rightarrow> byte list option" where
  "b64decode [] = Some []"
| "b64decode (c0 # c1 # c2 # c3 # rest) =
     (if rest = [] \<and> c3 = CHR ''='' then
        (if c2 = CHR ''='' then
           map_option (\<lambda>n. [of_nat (n div 65536)]) (decode_group c0 c1 CHR ''A'' CHR ''A'')
         else
           map_option (\<lambda>n. [of_nat (n div 65536), of_nat (n div 256 mod 256)])
             (decode_group c0 c1 c2 CHR ''A''))
      else
        (case decode_group c0 c1 c2 c3 of
           None \<Rightarrow> None
         | Some n \<Rightarrow>
             map_option
               (\<lambda>bs. of_nat (n div 65536) # of_nat (n div 256 mod 256) # of_nat (n mod 256) # bs)
               (b64decode rest)))"
| "b64decode _ = None"

section \<open>The script\<close>

record image =
  title :: string
  description :: string
  dataUrl :: string

record out =
  images :: "image list"
  nx_mcp_used :: bool
  count :: nat

subsection \<open>read\_input\<close>

text \<open>The argument is the bytes on standard input. Only \<^verbatim>\<open>json.loads\<close> is inside the
  \<^verbatim>\<open>try\<close>: \<^verbatim>\<open>sys.stdin.read()\<close> is before it and the two \<^verbatim>\<open>data.get\<close> calls are after it.\<close>

definition read_input :: "'s env \<Rightarrow> byte list \<Rightarrow> (json \<times> json) result" where
  "read_input E inp =
     bind_res (stdin_decode E inp) (\<lambda>raw.
       let data = (if raw \<noteq> [] then
                     (case json_loads E raw of Inl e \<Rightarrow> JObj [] | Inr v \<Rightarrow> v)
                   else JObj [])
       in bind_res (py_get data ''picks'' JNull) (\<lambda>p.
          bind_res (py_get data ''sites'' JNull) (\<lambda>s.
          Inr (or_empty_list p, or_empty_list s))))"

subsection \<open>fig\_to\_data\_url\<close>

definition data_url_prefix :: string where
  "data_url_prefix = ''data:image/png;base64,''"

definition fig_to_data_url :: "'s env \<Rightarrow> figure \<Rightarrow> string result" where
  "fig_to_data_url E fig =
     bind_res (savefig E fig) (\<lambda>buf. Inr (data_url_prefix @ b64encode buf))"

subsection \<open>chart\_benefit\_vs\_cost\<close>

definition pick_cost :: "'s env \<Rightarrow> json \<Rightarrow> pyfloat result" where
  "pick_cost E p = bind_res (py_get p ''cost'' (JInt 0)) (py_float E)"

definition pick_benefit :: "'s env \<Rightarrow> json \<Rightarrow> pyfloat result" where
  "pick_benefit E p = bind_res (py_get p ''benefit'' (JFloat (Fin 0))) (py_float E)"

definition pick_id :: "'s env \<Rightarrow> json \<Rightarrow> string result" where
  "pick_id E p = bind_res (py_get p ''id'' (JStr ''?'')) (\<lambda>v. Inr (py_str E v))"

text \<open>Lines 55 to 68: the three comprehensions, the scatter plot and the axis scale.\<close>

definition benefit_vs_cost_fig :: "'s env \<Rightarrow> json \<Rightarrow> figure result" where
  "benefit_vs_cost_fig E picks =
     bind_res (py_iter picks) (\<lambda>ps.
     bind_res (map_res (\<lambda>p. bind_res (pick_cost E p) (\<lambda>c. Inr (max2 (Fin 1) c))) ps) (\<lambda>xs.
     bind_res (map_res (pick_benefit E) ps) (\<lambda>ys.
     bind_res (map_res (pick_id E) ps) (\<lambda>labels.
     bind_res (py_max xs) (\<lambda>hi.
     bind_res (py_min xs) (\<lambda>lo.
     bind_res (py_truediv hi (max2 (Fin 1) lo)) (\<lambda>q.
     Inr \<lparr>content = Scatter xs ys labels,
          log_x = fgt q (Fin 50),
          x_label = ''Cost (USD)'',
          y_label = ''Benefit (risk reduction)'',
          fig_title = ''Benefit vs Cost of Selected Strategies''\<rparr>)))))))"

definition chart_benefit_vs_cost :: "'s env \<Rightarrow> json \<Rightarrow> image option result" where
  "chart_benefit_vs_cost E picks =
     (if \<not> truthy picks then Inr None
      else
        bind_res (benefit_vs_cost_fig E picks) (\<lambda>fig.
        bind_res (fig_to_data_url E fig) (\<lambda>url.
        Inr (Some \<lparr>title = ''Benefit vs Cost'',
                   description = ''Scatter plot of strategy cost vs expected risk reduction.'',
                   dataUrl = url\<rparr>))))"

subsection \<open>chart\_risk\_distribution\<close>

definition site_risk :: "'s env \<Rightarrow> json \<Rightarrow> pyfloat result" where
  "site_risk E s = bind_res (py_get s ''Risk'' (JFloat (Fin 0))) (py_float E)"

definition site_risks :: "'s env \<Rightarrow> json \<Rightarrow> pyfloat list result" where
  "site_risks E sites =
     bind_res (py_iter sites) (\<lambda>ss. map_res (site_risk E) (filter is_not_None ss))"

definition risk_bins :: "pyfloat list" where
  "risk_bins =
     [Fin 0, to_float (2 / 10), to_float (4 / 10), to_float (6 / 10), to_float (8 / 10), Fin 1]"

definition risk_distribution_fig :: "pyfloat list \<Rightarrow> figure" where
  "risk_distribution_fig risks =
     \<lparr>content = Histogram risks risk_bins,
      log_x = False,
      x_label = ''Risk score'',
      y_label = ''Number of sites'',
      fig_title = ''Portfolio Risk Distribution''\<rparr>"

definition chart_risk_distribution :: "'s env \<Rightarrow> json \<Rightarrow> image option result" where
  "chart_risk_distribution E sites =
     (if \<not> truthy sites then Inr None
      else
        bind_res (site_risks E sites) (\<lambda>risks.
        if risks = [] then Inr None
        else
          bind_res (fig_to_data_url E (risk_distribution_fig risks)) (\<lambda>url.
          Inr (Some \<lparr>title = ''Risk Distribution'',
                     description = ''Histogram of site risk scores across the portfolio.'',
                     dataUrl = url\<rparr>))))"

subsection \<open>chart\_optimization\_graph\<close>

text \<open>The body of the first \<^verbatim>\<open>try\<close>: the calls to the networkx\_mcp server.\<close>

fun mcp_add_all :: "'s env \<Rightarrow> json list \<Rightarrow> 's \<Rightarrow> 's result" where
  "mcp_add_all E [] s = Inr s"
| "mcp_add_all E (p # ps) s =
     bind_res (pick_id E p) (\<lambda>pid.
     bind_res (add_edges E ''optimization_graph''
                 [(pid, ''Budget''), (pid, ''RiskReduction'')] s) (\<lambda>s'.
     mcp_add_all E ps s'))"

definition mcp_mirror :: "'s env \<Rightarrow> json \<Rightarrow> 's result" where
  "mcp_mirror E picks =
     (if HAS_NX_MCP E then
        bind_res (create_graph E ''optimization_graph'' ''undirected'' (mcp_state E)) (\<lambda>s1.
        bind_res (add_nodes E ''optimization_graph'' [''Budget'', ''RiskReduction''] s1) (\<lambda>s2.
        bind_res (py_iter picks) (\<lambda>ps.
        bind_res (map_res (pick_id E) ps) (\<lambda>ids.
        bind_res (add_nodes E ''optimization_graph'' ids s2) (\<lambda>s3.
        mcp_add_all E ps s3)))))
      else Inr (mcp_state E))"

text \<open>\<^verbatim>\<open>G.add_node\<close> and \<^verbatim>\<open>G.add_edge\<close> of an undirected \<^verbatim>\<open>nx.Graph\<close>: a node is entered
  once; an edge enters its end points and replaces the weight of an edge already there.\<close>

definition add_node :: "string \<Rightarrow> graph \<Rightarrow> graph" where
  "add_node n G = (if n \<in> set (nodes G) then G else G\<lparr>nodes := nodes G @ [n]\<rparr>)"

definition add_edge :: "string \<Rightarrow> string \<Rightarrow> pyfloat \<Rightarrow> graph \<Rightarrow> graph" where
  "add_edge u v w G =
     (let G' = add_node v (add_node u G);
          others = filter (\<lambda>e. fst e \<noteq> (u, v) \<and> fst e \<noteq> (v, u)) (edges G')
      in G'\<lparr>edges := others @ [((u, v), w)]\<rparr>)"

text \<open>The cost as the graph builder reads it: its default is 1, not 0.\<close>

definition graph_cost :: "'s env \<Rightarrow> json \<Rightarrow> pyfloat result" where
  "graph_cost E p = bind_res (py_get p ''cost'' (JInt 1)) (py_float E)"

fun add_picks :: "'s env \<Rightarrow> json list \<Rightarrow> graph \<Rightarrow> graph result" where
  "add_picks E [] G = Inr G"
| "add_picks E (p # ps) G =
     bind_res (pick_id E p) (\<lambda>pid.
     bind_res (graph_cost E p) (\<lambda>c.
     bind_res (py_truediv c (Fin 1000000)) (\<lambda>w.
     bind_res (pick_benefit E p) (\<lambda>b.
     add_picks E ps
       (add_edge pid ''RiskReduction'' (max2 (to_float (1 / 100)) b)
         (add_edge pid ''Budget'' (max2 (Fin 1) w)
           (add_node pid G)))))))"

text \<open>The body of the second \<^verbatim>\<open>try\<close>.\<close>

definition render_graph :: "'s env \<Rightarrow> json \<Rightarrow> image result" where
  "render_graph E picks =
     bind_res (py_iter picks) (\<lambda>ps.
     bind_res (add_picks E ps
                 (add_node ''RiskReduction'' (add_node ''Budget'' \<lparr>nodes = [], edges = []\<rparr>))) (\<lambda>G.
     bind_res (spring_layout E G) (\<lambda>pos.
     bind_res (fig_to_data_url E
                 \<lparr>content = Network G pos
                    (filter (\<lambda>n. n \<noteq> ''Budget'' \<and> n \<noteq> ''RiskReduction'') (nodes G)),
                  log_x = False, x_label = [], y_label = [],
                  fig_title = ''Strategy Relationship Graph''\<rparr>) (\<lambda>url.
     Inr \<lparr>title = ''Strategy Graph'',
          description =
            ''Network diagram linking strategies to budget and risk-reduction hubs.'',
          dataUrl = url\<rparr>))))"

definition chart_optimization_graph :: "'s env \<Rightarrow> json \<Rightarrow> image option result" where
  "chart_optimization_graph E picks =
     (if \<not> truthy picks \<or> \<not> nx_available E then Inr None
      else
        (case mcp_mirror E picks of
           Inl e \<Rightarrow> (case render_graph E picks of Inl e' \<Rightarrow> Inr None | Inr c \<Rightarrow> Inr (Some c))
         | Inr s \<Rightarrow> (case render_graph E picks of Inl e' \<Rightarrow> Inr None | Inr c \<Rightarrow> Inr (Some c))))"

subsection \<open>main\<close>

text \<open>\<^verbatim>\<open>try: c = builder(...); if c: images.append(c)  except Exception: pass\<close>.
  A returned descriptor is a dict of three keys, hence true.\<close>

definition try_append :: "image option result \<Rightarrow> image list \<Rightarrow> image list" where
  "try_append r imgs =
     (case r of Inl e \<Rightarrow> imgs | Inr None \<Rightarrow> imgs | Inr (Some c) \<Rightarrow> imgs @ [c])"

text \<open>The result is the document written to standard output (the process then ends
  normally), or the exception that leaves \<^verbatim>\<open>main\<close> uncaught (a traceback on standard
  error and exit status 1).\<close>

definition main :: "'s env \<Rightarrow> byte list \<Rightarrow> out result" where
  "main E inp =
     bind_res (read_input E inp) (\<lambda>(picks, sites).
       let images0 = [];
           images1 = try_append (chart_benefit_vs_cost E picks) images0;
           images2 = try_append (chart_risk_distribution E sites) images1;
           images3 = try_append (chart_optimization_graph E picks) images2
       in Inr \<lparr>images = images3, nx_mcp_used = HAS_NX_MCP E, count = length images3\<rparr>)"

section \<open>Statements about runs, and a concrete environment\<close>

text \<open>The chart a guarded builder call contributes to the images list.\<close>

definition produced :: "image option result \<Rightarrow> image list" where
  "produced r = (case r of Inl e \<Rightarrow> [] | Inr None \<Rightarrow> [] | Inr (Some c) \<Rightarrow> [c])"

text \<open>The document written for an input without picks and sites.\<close>

definition empty_out :: "'s env \<Rightarrow> out" where
  "empty_out E = \<lparr>images = [], nx_mcp_used = HAS_NX_MCP E, count = 0\<rparr>"

text \<open>Two runs that differ in nothing but the \<^verbatim>\<open>nx_mcp_used\<close> flag have the same view.\<close>

definition images_view :: "out result \<Rightarrow> (image list \<times> nat) result" where
  "images_view r = (case r of Inl e \<Rightarrow> Inl e | Inr d \<Rightarrow> Inr (images d, count d))"

text \<open>The largest and the smallest item of a list of floats without nan.\<close>

definition fle :: "pyfloat \<Rightarrow> pyfloat \<Rightarrow> bool" where
  "fle a b = (a \<noteq> NaN \<and> b \<noteq> NaN \<and> \<not> flt b a)"

definition is_maximum :: "pyfloat \<Rightarrow> pyfloat list \<Rightarrow> bool" where
  "is_maximum hi xs = (hi \<in> set xs \<and> list_all (\<lambda>x. fle x hi) xs)"

definition is_minimum :: "pyfloat \<Rightarrow> pyfloat list \<Rightarrow> bool" where
  "is_minimum lo xs = (lo \<in> set xs \<and> list_all (\<lambda>x. fle lo x) xs)"

text \<open>\<^verbatim>\<open>float()\<close> raises on the field \<open>k\<close> of the record \<open>p\<close>: the field is present and
  its value is not accepted.\<close>

definition float_rejects :: "'s env \<Rightarrow> json \<Rightarrow> string \<Rightarrow> bool" where
  "float_rejects E p k = (\<exists>m v e. p = JObj m \<and> map_of m k = Some v \<and> py_float E v = Inl e)"

text \<open>The descriptors the three builders return for a data URL.\<close>

definition benefit_vs_cost_image :: "string \<Rightarrow> image" where
  "benefit_vs_cost_image url =
     \<lparr>title = ''Benefit vs Cost'',
      description = ''Scatter plot of strategy cost vs expected risk reduction.'',
      dataUrl = url\<rparr>"

definition risk_distribution_image :: "string \<Rightarrow> image" where
  "risk_distribution_image url =
     \<lparr>title = ''Risk Distribution'',
      description = ''Histogram of site risk scores across the portfolio.'',
      dataUrl = url\<rparr>"

definition strategy_graph_image :: "string \<Rightarrow> image" where
  "strategy_graph_image url =
     \<lparr>title = ''Strategy Graph'',
      description = ''Network diagram linking strategies to budget and risk-reduction hubs.'',
      dataUrl = url\<rparr>"

text \<open>
  The input of the second testable property of the specification: its text, the bytes
  of that text on standard input, and the value \<^verbatim>\<open>json.loads\<close> returns for it.
\<close>

definition sample_text :: string where
  \<open>sample_text = ''{"picks":[{"id":"A","cost":100,"benefit":0.5}],"sites":[]}''\<close>

definition ascii_encode :: "string \<Rightarrow> byte list" where
  "ascii_encode s = map (\<lambda>c. of_nat (of_char c)) s"

definition sample_input :: "byte list" where
  "sample_input = ascii_encode sample_text"

definition sample_pick :: json where
  "sample_pick =
     JObj [(''id'', JStr ''A''), (''cost'', JInt 100), (''benefit'', JFloat (Fin (1 / 2)))]"

definition sample_doc :: json where
  "sample_doc = JObj [(''picks'', JArr [sample_pick]), (''sites'', JArr [])]"

text \<open>
  An environment for the concrete runs below. Standard input is decoded with the strict
  ASCII codec; the parser knows the three documents that are used and rejects every
  other text; rendering returns the first bytes of a PNG file; networkx is installed and
  networkx\_mcp is not.
\<close>

definition ascii_decode :: "byte list \<Rightarrow> string result" where
  "ascii_decode bs =
     (if list_all (\<lambda>b. b < 128) bs then Inr (map (\<lambda>b. char_of (unat b)) bs)
      else Inl UnicodeDecodeError)"

definition sample_loads :: "string \<Rightarrow> json result" where
  "sample_loads raw =
     (if raw = ''{}'' then Inr (JObj [])
      else if raw = ''[]'' then Inr (JArr [])
      else if raw = sample_text then Inr sample_doc
      else Inl JSONDecodeError)"

definition sample_env :: "unit env" where
  "sample_env =
     \<lparr>stdin_decode = ascii_decode,
      json_loads = sample_loads,
      float_of_str = (\<lambda>s. None),
      repr = (\<lambda>v. ''?''),
      savefig = (\<lambda>fig. Inr [0x89, 0x50, 0x4E, 0x47, 0x0D]),
      nx_available = True,
      spring_layout = (\<lambda>G. Inr (map (\<lambda>n. (n, Fin 0, Fin 0)) (nodes G))),
      HAS_NX_MCP = False,
      mcp_state = (),
      create_graph = (\<lambda>name kind s. Inr s),
      add_nodes = (\<lambda>name ns s. Inr s),
      add_edges = (\<lambda>name es s. Inr s)\<rparr>"

text \<open>The doubles that \<^verbatim>\<open>json.loads\<close> returns for the literals
  \<^verbatim>\<open>1.0000000000000002\<close> and \<^verbatim>\<open>50.000000000000014\<close>.\<close>

definition cost_lo :: real where
  "cost_lo = 1 + 1 / 2 ^ 52"

definition cost_hi :: real where
  "cost_hi = 50 + 1 / 2 ^ 46"

text \<open>The same machine with networkx\_mcp installed and its server failing at the first call.\<close>

definition sample_env_mcp_down :: "unit env" where
  "sample_env_mcp_down =
     sample_env\<lparr>HAS_NX_MCP := True,
                create_graph := (\<lambda>name kind s. Inl (LibraryError ''server down''))\<rparr>"

text \<open>The same machine without networkx.\<close>

definition sample_env_no_nx :: "unit env" where
  "sample_env_no_nx = sample_env\<lparr>nx_available := False\<rparr>"

text \<open>The same machine with a display that cannot render.\<close>

definition sample_env_no_render :: "unit env" where
  "sample_env_no_render = sample_env\<lparr>savefig := (\<lambda>fig. Inl (LibraryError ''no renderer''))\<rparr>"

section \<open>Basic facts\<close>

lemma bind_res_simps [simp]:
  "bind_res (Inl e) f = Inl e" "bind_res (Inr x) f = f x"
  by (simp_all add: bind_res_def)

lemma bind_res_Inr_iff: "bind_res m f = Inr y \<longleftrightarrow> (\<exists>x. m = Inr x \<and> f x = Inr y)"
  by (cases m) simp_all

lemma py_get_non_object: "\<forall>kvs. v \<noteq> JObj kvs \<Longrightarrow> py_get v k d = Inl AttributeError"
  by (cases v) simp_all

lemma chart_benefit_vs_cost_falsy: "\<not> truthy picks \<Longrightarrow> chart_benefit_vs_cost E picks = Inr None"
  by (simp add: chart_benefit_vs_cost_def)

lemma chart_risk_distribution_falsy: "\<not> truthy sites \<Longrightarrow> chart_risk_distribution E sites = Inr None"
  by (simp add: chart_risk_distribution_def)

lemma chart_optimization_graph_falsy: "\<not> truthy picks \<Longrightarrow> chart_optimization_graph E picks = Inr None"
  by (simp add: chart_optimization_graph_def)

lemma try_append_produced: "try_append r imgs = imgs @ produced r"
  by (simp add: try_append_def produced_def split: sum.splits option.splits)

lemma main_of_read_input:
  "read_input E inp = Inr (picks, sites) \<Longrightarrow>
   main E inp =
     Inr \<lparr>images = produced (chart_benefit_vs_cost E picks) @
                    produced (chart_risk_distribution E sites) @
                    produced (chart_optimization_graph E picks),
          nx_mcp_used = HAS_NX_MCP E,
          count = length (produced (chart_benefit_vs_cost E picks) @
                          produced (chart_risk_distribution E sites) @
                          produced (chart_optimization_graph E picks))\<rparr>"
  by (simp add: main_def try_append_produced Let_def)

lemma main_Inr_read_input:
  "main E inp = Inr d \<Longrightarrow> \<exists>picks sites. read_input E inp = Inr (picks, sites)"
  by (cases "read_input E inp") (auto simp: main_def)

lemma read_input_empty_doc:
  assumes "stdin_decode E inp = Inr raw"
    and "raw = [] \<or> (\<exists>e. json_loads E raw = Inl e) \<or> json_loads E raw = Inr (JObj [])"
  shows "read_input E inp = Inr (JArr [], JArr [])"
  using assms by (auto simp: read_input_def or_empty_list_def)

lemma read_input_object:
  assumes "stdin_decode E inp = Inr raw" and "raw \<noteq> []" and "json_loads E raw = Inr (JObj kvs)"
  shows "read_input E inp =
           Inr (or_empty_list (case map_of kvs ''picks'' of None \<Rightarrow> JNull | Some v \<Rightarrow> v),
                or_empty_list (case map_of kvs ''sites'' of None \<Rightarrow> JNull | Some v \<Rightarrow> v))"
  using assms by (simp add: read_input_def)

lemma main_empty_doc:
  assumes "read_input E inp = Inr (JArr [], JArr [])"
  shows "main E inp = Inr (empty_out E)"
  by (simp add: main_of_read_input[OF assms] chart_benefit_vs_cost_falsy
      chart_risk_distribution_falsy chart_optimization_graph_falsy produced_def empty_out_def)

section \<open>Rounding to a double\<close>

lemma round_half_even_near:
  assumes "\<bar>q - of_int m\<bar> < 1 / 2"
  shows "round_half_even q = m"
proof (cases "of_int m \<le> q")
  case True
  then have f: "\<lfloor>q\<rfloor> = m" using assms by (intro floor_unique) auto
  show ?thesis using assms True by (simp add: round_half_even_def f Let_def)
next
  case False
  then have f: "\<lfloor>q\<rfloor> = m - 1" using assms by (intro floor_unique) auto
  show ?thesis using assms False by (auto simp: round_half_even_def f Let_def)
qed

lemma ulp_exponent_eq:
  assumes "2 powr of_int k \<le> \<bar>x\<bar>" and "\<bar>x\<bar> < 2 powr of_int (k + 1)" and "- 1022 \<le> k"
  shows "ulp_exponent x = k - 52"
proof -
  have "0 < \<bar>x\<bar>" using assms(1) by (smt (verit) powr_gt_zero)
  then have "\<lfloor>log 2 \<bar>x\<bar>\<rfloor> = k"
    using assms(1,2) by (simp add: floor_log_eq_powr_iff)
  then show ?thesis using assms(3) by (simp add: ulp_exponent_def)
qed

lemma round_double_nearest:
  assumes "2 powr of_int k \<le> \<bar>x\<bar>" and "\<bar>x\<bar> < 2 powr of_int (k + 1)" and "- 1022 \<le> k"
    and "\<bar>x / 2 powr of_int (k - 52) - of_int m\<bar> < 1 / 2"
  shows "round_double x = of_int m * 2 powr of_int (k - 52)"
proof -
  have "x \<noteq> 0" using assms(1) by (smt (verit) powr_gt_zero)
  then show ?thesis
    using round_half_even_near[OF assms(4)]
    by (simp add: round_double_def ulp_exponent_eq[OF assms(1-3)])
qed

lemma round_double_int:
  assumes "\<bar>n\<bar> < 2 ^ 53"
  shows "round_double (of_int n) = of_int n"
proof (cases "n = 0")
  case True
  then show ?thesis by (simp add: round_double_def)
next
  case False
  define k where "k = \<lfloor>log 2 \<bar>real_of_int n\<bar>\<rfloor>"
  have pos: "0 < \<bar>real_of_int n\<bar>" using False by simp
  have b: "2 powr of_int k \<le> \<bar>real_of_int n\<bar>" "\<bar>real_of_int n\<bar> < 2 powr of_int (k + 1)"
    using floor_log_eq_powr_iff[of "\<bar>real_of_int n\<bar>" 2 k] pos by (simp_all add: k_def)
  have "1 \<le> \<bar>n\<bar>" using False by linarith
  then have "1 \<le> \<bar>real_of_int n\<bar>" by (metis of_int_1_le_iff of_int_abs)
  then have k0: "0 \<le> k" unfolding k_def by simp
  have "\<bar>real_of_int n\<bar> < 2 ^ 53"
    using assms by (metis of_int_abs of_int_less_numeral_power_cancel_iff)
  then have "(2::real) powr of_int k < 2 ^ 53"
    using b(1) by simp
  then have k52: "k \<le> 52"
    using powr_less_cancel_iff[of 2 "real_of_int k" "real_of_int 53"] by simp
  define j where "j = nat (52 - k)"
  have p: "(2::real) powr (of_int k - 52) = 1 / 2 ^ j"
    using powr_real_of_int[of "2::real" "k - 52"] k52
    by (cases "k = 52") (simp_all add: j_def inverse_eq_divide)
  have "real_of_int n / 2 powr of_int (k - 52) = of_int (n * 2 ^ j)"
    by (simp add: p)
  then have "\<bar>real_of_int n / 2 powr of_int (k - 52) - of_int (n * 2 ^ j)\<bar> < 1 / 2" by simp
  then have "round_double (of_int n) = of_int (n * 2 ^ j) * 2 powr of_int (k - 52)"
    using k0 by (intro round_double_nearest b) auto
  then show ?thesis by (simp add: p)
qed

lemma round_double_numeral:
  "numeral w < (2::int) ^ 53 \<Longrightarrow> round_double (numeral w) = numeral w"
  using round_double_int[of "numeral w"] by simp

lemma to_float_small_int:
  assumes "\<bar>n\<bar> < 2 ^ 53"
  shows "to_float (of_int n) = Fin (of_int n)"
proof -
  have "\<bar>real_of_int n\<bar> < 2 ^ 53"
    using assms by (metis of_int_abs of_int_less_numeral_power_cancel_iff)
  then have "\<bar>real_of_int n\<bar> < 2 ^ 1024"
    by (rule less_trans) simp
  then show ?thesis by (auto simp: to_float_def round_double_int[OF assms] Let_def)
qed

section \<open>The order of floats\<close>

lemma flt_irrefl: "\<not> flt a a"
  by (cases a) simp_all

lemma flt_trans: "flt a b \<Longrightarrow> flt b c \<Longrightarrow> flt a c"
  by (cases a; cases b; cases c) simp_all

lemma flt_total: "a \<noteq> NaN \<Longrightarrow> b \<noteq> NaN \<Longrightarrow> flt a b \<or> a = b \<or> flt b a"
  by (cases a; cases b) auto

lemma flt_not_NaN: "flt a b \<Longrightarrow> a \<noteq> NaN \<and> b \<noteq> NaN"
  by (cases a; cases b) simp_all

lemma fle_refl: "a \<noteq> NaN \<Longrightarrow> fle a a"
  by (simp add: fle_def flt_irrefl)

lemma fle_trans: "fle a b \<Longrightarrow> fle b c \<Longrightarrow> fle a c"
  unfolding fle_def using flt_total flt_trans by blast

lemma max2_floor: "max2 (Fin 1) c \<noteq> NaN \<and> fle (Fin 1) (max2 (Fin 1) c)"
  by (cases c) (auto simp: max2_def fgt_def fle_def)

lemma max2_idem: "fle (Fin 1) x \<Longrightarrow> max2 (Fin 1) x = x"
  unfolding fle_def max2_def fgt_def using flt_total[of "Fin 1" x] by auto

section \<open>Base64: decoding undoes encoding\<close>

lemma low_byte:
  assumes "c < 256"
  shows "(a * 65536 + b * 256 + c) mod 256 = (c::nat)"
proof -
  have h: "a * 65536 + b * 256 + c = (a * 256 + b) * 256 + c" by simp
  have "\<And>k. (k * 256 + c) mod 256 = c" using assms by simp
  then show ?thesis by (simp only: h)
qed

lemma b64_table_inverse: "\<forall>n<64. b64_index (b64_char n) = Some n \<and> b64_char n \<noteq> CHR ''=''"
  unfolding b64_char_def b64_index_def b64_alphabet_def
  by (simp add: eval_nat_numeral All_less_Suc)

lemma b64_index_char: "n < 64 \<Longrightarrow> b64_index (b64_char n) = Some n"
  using b64_table_inverse by blast

lemma b64_char_not_pad: "n < 64 \<Longrightarrow> b64_char n \<noteq> CHR ''=''"
  using b64_table_inverse by blast

lemma high_byte: "b < 256 \<Longrightarrow> c < 256 \<Longrightarrow> (a * 65536 + b * 256 + c) div 65536 = (a::nat)"
  by simp

lemma mid_byte:
  assumes "b < 256" "c < 256"
  shows "(a * 65536 + b * 256 + c) div 256 mod 256 = (b::nat)"
proof -
  have h: "a * 65536 + b * 256 + c = (a * 256 + b) * 256 + c" by simp
  have "\<And>k. (k * 256 + c) div 256 = k" using assms by simp
  then have "(a * 65536 + b * 256 + c) div 256 = a * 256 + b"
    by (simp only: h)
  then show ?thesis using assms by simp
qed

lemma sextets_recompose: "(n div 262144) * 262144 + (n div 4096 mod 64) * 4096 + (n div 64 mod 64) * 64 + n mod 64 = (n::nat)"
proof -
  have d: "n div 64 div 64 = n div 4096" "n div 4096 div 64 = n div 262144"
    by (simp_all add: div_mult2_eq[symmetric])
  have a: "n = (n div 64) * 64 + n mod 64" by simp
  have b: "n div 64 = (n div 4096) * 64 + n div 64 mod 64"
    using div_mult_mod_eq[of "n div 64" 64] unfolding d by simp
  have c: "n div 4096 = (n div 262144) * 64 + n div 4096 mod 64"
    using div_mult_mod_eq[of "n div 4096" 64] unfolding d by simp
  show ?thesis using a b c by linarith
qed

lemma top_sextet_less: "(n::nat) < 16777216 \<Longrightarrow> n div 262144 < 64"
  by (simp add: less_mult_imp_div_less)

lemma decode_group_sextets:
  assumes "n < 16777216"
  shows "decode_group (b64_char (n div 262144)) (b64_char (n div 4096 mod 64))
           (b64_char (n div 64 mod 64)) (b64_char (n mod 64)) = Some n"
  using assms sextets_recompose[of n] by (simp add: decode_group_def b64_index_char top_sextet_less)

lemma three_bytes_less: "unat (a::byte) * 65536 + unat (b::byte) * 256 + unat (c::byte) < 16777216"
proof -
  have "unat a < 256" "unat b < 256" "unat c < 256"
    using unsigned_less[of a] unsigned_less[of b] unsigned_less[of c] by simp_all
  then show ?thesis by linarith
qed

lemma unat_byte_less: "unat (a::byte) < 256"
  using unsigned_less[of a] by simp

lemma b64_roundtrip: "b64decode (b64encode bs) = Some bs"
proof (induction bs rule: b64encode.induct)
  case 1
  then show ?case by simp
next
  case (2 a)
  have n: "unat a * 65536 < 16777216" using three_bytes_less[of a 0 0] by simp
  have z: "unat a * 65536 div 64 mod 64 = 0" "unat a * 65536 mod 64 = 0"
    using mid_byte[of 0 0 "unat a"] by (simp_all add: mod_eq_0_iff_dvd)
  have "decode_group (b64_char (unat a * 65536 div 262144)) (b64_char (unat a * 65536 div 4096 mod 64))
          CHR ''A'' CHR ''A'' = Some (unat a * 65536)"
    using decode_group_sextets[OF n] unfolding z by (simp add: b64_char_def b64_alphabet_def)
  then show ?case by (simp add: Let_def)
next
  case (3 a b)
  let ?n = "unat a * 65536 + unat b * 256"
  have n: "?n < 16777216" using three_bytes_less[of a b 0] by simp
  have z: "?n mod 64 = 0"
    by (simp add: mod_eq_0_iff_dvd)
  have bts: "?n div 65536 = unat a" "?n div 256 mod 256 = unat b"
    using high_byte[of "unat b" 0 "unat a"] mid_byte[of "unat b" 0 "unat a"] unat_byte_less
    by simp_all
  have ne: "b64_char (?n div 64 mod 64) \<noteq> CHR ''=''" by (simp add: b64_char_not_pad)
  have "decode_group (b64_char (?n div 262144)) (b64_char (?n div 4096 mod 64))
          (b64_char (?n div 64 mod 64)) CHR ''A'' = Some ?n"
    using decode_group_sextets[OF n] unfolding z by (simp add: b64_char_def b64_alphabet_def)
  then show ?case using ne bts by (simp add: Let_def)
next
  case (4 a b c rest)
  let ?n = "unat a * 65536 + unat b * 256 + unat c"
  have n: "?n < 16777216" by (rule three_bytes_less)
  have ne: "b64_char (?n mod 64) \<noteq> CHR ''=''" by (simp add: b64_char_not_pad)
  have bts: "?n div 65536 = unat a" "?n div 256 mod 256 = unat b" "?n mod 256 = unat c"
    using high_byte[of "unat b" "unat c" "unat a"] mid_byte[of "unat b" "unat c" "unat a"] low_byte[of "unat c" "unat a" "unat b"] unat_byte_less
    by simp_all
  show ?case using 4 ne decode_group_sextets[OF n] bts
    by (simp add: Let_def)
qed

section \<open>The sample environment\<close>

lemma ascii_roundtrip:
  "list_all (\<lambda>c. of_char c < (128::nat)) s \<Longrightarrow> ascii_decode (ascii_encode s) = Inr s"
proof -
  assume a: "list_all (\<lambda>c. of_char c < (128::nat)) s"
  have u: "unat (of_nat (of_char c) :: byte) = of_char c" if "of_char c < (128::nat)" for c
    using that by (simp add: unat_of_nat take_bit_nat_eq_self)
  have "list_all (\<lambda>b. b < 128) (ascii_encode s)"
    using a unfolding ascii_encode_def list_all_iff
    by (auto simp: word_less_nat_alt u)
  moreover have "map (\<lambda>b. char_of (unat b)) (ascii_encode s) = s"
    using a unfolding ascii_encode_def list_all_iff
    by (induction s) (auto simp: u)
  ultimately show ?thesis by (simp add: ascii_decode_def)
qed

lemma sample_decode:
  "stdin_decode sample_env [] = Inr []"
  "stdin_decode sample_env (ascii_encode ''{}'') = Inr ''{}''"
  "stdin_decode sample_env (ascii_encode ''[]'') = Inr ''[]''"
  "stdin_decode sample_env (ascii_encode ''{'') = Inr ''{''"
  "stdin_decode sample_env sample_input = Inr sample_text"
  "stdin_decode sample_env [0xFF, 0xFE] = Inl UnicodeDecodeError"
proof -
  have d: "stdin_decode sample_env = ascii_decode" by (simp add: sample_env_def)
  show "stdin_decode sample_env [] = Inr []" by (simp add: d ascii_decode_def)
  show "stdin_decode sample_env (ascii_encode ''{}'') = Inr ''{}''"
    unfolding d by (rule ascii_roundtrip) simp
  show "stdin_decode sample_env (ascii_encode ''[]'') = Inr ''[]''"
    unfolding d by (rule ascii_roundtrip) simp
  show "stdin_decode sample_env (ascii_encode ''{'') = Inr ''{''"
    unfolding d by (rule ascii_roundtrip) simp
  show "stdin_decode sample_env sample_input = Inr sample_text"
    unfolding d sample_input_def by (rule ascii_roundtrip) (simp add: sample_text_def)
  show "stdin_decode sample_env [0xFF, 0xFE] = Inl UnicodeDecodeError"
    by (simp add: d ascii_decode_def)
qed

lemma sample_text_neq: "sample_text \<noteq> []" "sample_text \<noteq> ''{}''" "sample_text \<noteq> ''[]''"
  by (simp_all add: sample_text_def)

lemma sample_loads:
  "json_loads sample_env ''{}'' = Inr (JObj [])"
  "json_loads sample_env ''[]'' = Inr (JArr [])"
  "json_loads sample_env ''{'' = Inl JSONDecodeError"
  "json_loads sample_env sample_text = Inr sample_doc"
  by (simp_all add: sample_env_def sample_loads_def sample_text_neq) (simp add: sample_text_def)

section \<open>The process as a whole\<close>

text \<open>
  Claim C1 says that the program exits with status 0 for every input. The guard around
  \<^verbatim>\<open>json.loads\<close> ends before the two \<^verbatim>\<open>data.get\<close> calls: when the text on standard
  input parses to a JSON value that is not an object (an array, a number, a string,
  true, false or null), \<^verbatim>\<open>data.get\<close> raises AttributeError outside every \<^verbatim>\<open>try\<close> and
  the exception leaves \<^verbatim>\<open>main\<close>.
\<close>

theorem main_uncaught_AttributeError:
  assumes "stdin_decode E inp = Inr raw" and "raw \<noteq> []"
    and "json_loads E raw = Inr v" and "\<forall>kvs. v \<noteq> JObj kvs"
  shows "main E inp = Inl AttributeError"
  using assms by (simp add: main_def read_input_def py_get_non_object)

theorem main_uncaught_AttributeError_witness:
  "stdin_decode sample_env (ascii_encode ''[]'') = Inr ''[]'' \<and>
   json_loads sample_env ''[]'' = Inr (JArr []) \<and>
   main sample_env (ascii_encode ''[]'') = Inl AttributeError"
proof -
  have "main sample_env (ascii_encode ''[]'') = Inl AttributeError"
    using main_uncaught_AttributeError[OF sample_decode(3) _ sample_loads(2)] by simp
  then show ?thesis using sample_decode(3) sample_loads(2) by simp
qed

text \<open>
  Claim C3 says that every input that fails to parse as JSON gives the output of empty
  input. \<^verbatim>\<open>sys.stdin.read()\<close> is before the \<^verbatim>\<open>try\<close> as well: bytes that the codec of
  standard input rejects never reach \<^verbatim>\<open>json.loads\<close>; the UnicodeDecodeError leaves
  \<^verbatim>\<open>main\<close> and nothing is written.
\<close>

theorem main_uncaught_UnicodeDecodeError:
  assumes "stdin_decode E inp = Inl e"
  shows "main E inp = Inl e"
  using assms by (simp add: main_def read_input_def)

theorem main_uncaught_UnicodeDecodeError_witness:
  "stdin_decode sample_env [0xFF, 0xFE] = Inl UnicodeDecodeError \<and>
   main sample_env [0xFF, 0xFE] = Inl UnicodeDecodeError \<and>
   main sample_env [] = Inr \<lparr>images = [], nx_mcp_used = False, count = 0\<rparr>"
proof -
  have "read_input sample_env [] = Inr (JArr [], JArr [])"
    by (rule read_input_empty_doc[OF sample_decode(1)]) simp
  then have "main sample_env [] = Inr (empty_out sample_env)" by (rule main_empty_doc)
  then show ?thesis
    using main_uncaught_UnicodeDecodeError[OF sample_decode(6)] sample_decode(6)
    by (simp add: empty_out_def sample_env_def)
qed

text \<open>
  What holds of the inputs that are decoded: empty input, the text \<^verbatim>\<open>{}\<close> and every text
  that \<^verbatim>\<open>json.loads\<close> rejects give the same document, without images and with a count
  of 0.
\<close>

theorem decoded_empty_input_output:
  "(\<forall>raw. stdin_decode E inp = Inr raw \<and>
      (raw = [] \<or> (\<exists>e. json_loads E raw = Inl e) \<or> json_loads E raw = Inr (JObj [])) \<longrightarrow>
      main E inp = Inr (empty_out E)) \<and>
   images (empty_out E) = [] \<and> count (empty_out E) = 0"
  using main_empty_doc[OF read_input_empty_doc, of E inp] by (auto simp: empty_out_def)

theorem decoded_empty_input_output_witness:
  "main sample_env [] = Inr \<lparr>images = [], nx_mcp_used = False, count = 0\<rparr> \<and>
   main sample_env (ascii_encode ''{}'') = main sample_env [] \<and>
   main sample_env (ascii_encode ''{'') = main sample_env []"
proof -
  have e: "empty_out sample_env = \<lparr>images = [], nx_mcp_used = False, count = 0\<rparr>"
    by (simp add: empty_out_def sample_env_def)
  show ?thesis
    using decoded_empty_input_output[of sample_env "[]"]
      decoded_empty_input_output[of sample_env "ascii_encode ''{}''"]
      decoded_empty_input_output[of sample_env "ascii_encode ''{''"]
      sample_decode sample_loads
    unfolding e by simp
qed

text \<open>
  The program ends normally exactly when the bytes on standard input are decoded and
  their text is empty, is rejected by \<^verbatim>\<open>json.loads\<close>, or parses to an object.
\<close>

theorem main_exits_normally_iff:
  "(\<exists>d. main E inp = Inr d) \<longleftrightarrow>
     (\<exists>raw. stdin_decode E inp = Inr raw \<and>
        (raw = [] \<or> (\<exists>e. json_loads E raw = Inl e) \<or> (\<exists>kvs. json_loads E raw = Inr (JObj kvs))))"
proof -
  have "(\<exists>d. main E inp = Inr d) \<longleftrightarrow> (\<exists>ps. read_input E inp = Inr ps)"
    using main_of_read_input[of E inp] main_Inr_read_input[of E inp] by (metis prod.exhaust)
  also have "\<dots> \<longleftrightarrow> (\<exists>raw. stdin_decode E inp = Inr raw \<and>
        (raw = [] \<or> (\<exists>e. json_loads E raw = Inl e) \<or> (\<exists>kvs. json_loads E raw = Inr (JObj kvs))))"
  proof (cases "stdin_decode E inp")
    case (Inl e)
    then show ?thesis by (simp add: read_input_def)
  next
    case (Inr raw)
    show ?thesis
    proof (cases "raw = []")
      case True
      then show ?thesis using Inr by (simp add: read_input_def)
    next
      case False
      show ?thesis
      proof (cases "json_loads E raw")
        case (Inl e)
        then show ?thesis using False Inr by (simp add: read_input_def)
      next
        case v: (Inr v)
        then show ?thesis using False Inr by (cases v) (simp_all add: read_input_def)
      qed
    qed
  qed
  finally show ?thesis .
qed

theorem main_exits_normally_iff_witness:
  "(\<exists>d. main sample_env sample_input = Inr d) \<and>
   (\<exists>d. main sample_env (ascii_encode ''{'') = Inr d) \<and>
   \<not> (\<exists>d. main sample_env (ascii_encode ''[]'') = Inr d) \<and>
   \<not> (\<exists>d. main sample_env [0xFF, 0xFE] = Inr d)"
  using main_exits_normally_iff[of sample_env sample_input]
    main_exits_normally_iff[of sample_env "ascii_encode ''{''"]
    main_exits_normally_iff[of sample_env "ascii_encode ''[]''"]
    main_exits_normally_iff[of sample_env "[0xFF, 0xFE]"]
    sample_decode sample_loads
  by (simp add: sample_doc_def)

lemma map_res_length: "map_res f xs = Inr ys \<Longrightarrow> length ys = length xs"
  by (induction xs arbitrary: ys) (auto split: sum.splits)

lemma map_res_Nil_iff: "map_res f xs = Inr [] \<longleftrightarrow> xs = []"
  using map_res_length[of f xs "[]"] by (cases xs) auto

lemma chart_benefit_vs_cost_title:
  "chart_benefit_vs_cost E picks = Inr (Some c) \<Longrightarrow> title c = ''Benefit vs Cost''"
  by (auto simp: chart_benefit_vs_cost_def bind_res_Inr_iff split: if_splits)

lemma chart_risk_distribution_title:
  "chart_risk_distribution E sites = Inr (Some c) \<Longrightarrow> title c = ''Risk Distribution''"
  by (auto simp: chart_risk_distribution_def bind_res_Inr_iff split: if_splits)

lemma render_graph_title:
  "render_graph E picks = Inr c \<Longrightarrow> title c = ''Strategy Graph''"
  by (auto simp: render_graph_def bind_res_Inr_iff)

lemma chart_optimization_graph_render:
  "chart_optimization_graph E picks = Inr (Some c) \<Longrightarrow> render_graph E picks = Inr c"
  by (auto simp: chart_optimization_graph_def split: if_splits sum.splits)

lemma chart_optimization_graph_title:
  "chart_optimization_graph E picks = Inr (Some c) \<Longrightarrow> title c = ''Strategy Graph''"
  by (auto dest: chart_optimization_graph_render render_graph_title)

lemma produced_cases: "produced r = [] \<or> (\<exists>c. r = Inr (Some c) \<and> produced r = [c])"
  by (auto simp: produced_def split: sum.splits option.splits)

lemma subseq_three:
  assumes "as = [] \<or> as = [a]" "bs = [] \<or> bs = [b]" "cs = [] \<or> cs = [c]"
  shows "subseq (as @ bs @ cs) [a, b, c]"
  using assms by auto

text \<open>
  Claim C4: whenever the program writes its document, the images are the charts the three
  builders produced, in the order of the calls (cost/benefit, risk distribution,
  relationship graph), a builder that returned nothing or raised being left out, and
  \<^verbatim>\<open>meta.count\<close> is the length of the images list.
\<close>

theorem images_in_call_order:
  assumes "main E inp = Inr d"
  shows "\<exists>picks sites.
           read_input E inp = Inr (picks, sites) \<and>
           images d = produced (chart_benefit_vs_cost E picks) @
                      produced (chart_risk_distribution E sites) @
                      produced (chart_optimization_graph E picks) \<and>
           subseq (map title (images d)) [''Benefit vs Cost'', ''Risk Distribution'', ''Strategy Graph''] \<and>
           count d = length (images d)"
proof -
  obtain picks sites where r: "read_input E inp = Inr (picks, sites)"
    using main_Inr_read_input[OF assms] by blast
  let ?p1 = "produced (chart_benefit_vs_cost E picks)"
  let ?p2 = "produced (chart_risk_distribution E sites)"
  let ?p3 = "produced (chart_optimization_graph E picks)"
  have d: "images d = ?p1 @ ?p2 @ ?p3" "count d = length (images d)"
    using assms main_of_read_input[OF r] by auto
  have t1: "map title ?p1 = [] \<or> map title ?p1 = [''Benefit vs Cost'']"
    using produced_cases[of "chart_benefit_vs_cost E picks"]
    by (auto dest: chart_benefit_vs_cost_title)
  have t2: "map title ?p2 = [] \<or> map title ?p2 = [''Risk Distribution'']"
    using produced_cases[of "chart_risk_distribution E sites"]
    by (auto dest: chart_risk_distribution_title)
  have t3: "map title ?p3 = [] \<or> map title ?p3 = [''Strategy Graph'']"
    using produced_cases[of "chart_optimization_graph E picks"]
    by (auto dest: chart_optimization_graph_title)
  have "subseq (map title ?p1 @ map title ?p2 @ map title ?p3)
          [''Benefit vs Cost'', ''Risk Distribution'', ''Strategy Graph'']"
    by (rule subseq_three[OF t1 t2 t3])
  then show ?thesis using r d by simp
qed

lemma sample_url: "fig_to_data_url sample_env fig = Inr ''data:image/png;base64,iVBORw0=''"
  by (simp add: fig_to_data_url_def sample_env_def data_url_prefix_def b64_char_def
      b64_alphabet_def Let_def)

lemma sample_read_input:
  "read_input sample_env sample_input = Inr (JArr [sample_pick], JArr [])"
  using read_input_object[OF sample_decode(5) sample_text_neq(1), of "[(''picks'', JArr [sample_pick]), (''sites'', JArr [])]"]
    sample_loads(4)
  by (simp add: sample_doc_def or_empty_list_def)

lemma sample_benefit_vs_cost:
  "chart_benefit_vs_cost sample_env (JArr [sample_pick]) =
     Inr (Some (benefit_vs_cost_image ''data:image/png;base64,iVBORw0=''))"
  by (simp add: chart_benefit_vs_cost_def benefit_vs_cost_fig_def sample_pick_def pick_cost_def
      pick_benefit_def pick_id_def sample_url round_double_numeral max2_def fgt_def
      benefit_vs_cost_image_def)

lemma sample_strategy_graph:
  "chart_optimization_graph sample_env (JArr [sample_pick]) =
     Inr (Some (strategy_graph_image ''data:image/png;base64,iVBORw0=''))"
proof -
  have f: "nx_available sample_env" "\<not> HAS_NX_MCP sample_env"
    "spring_layout sample_env = (\<lambda>G. Inr (map (\<lambda>n. (n, Fin 0, Fin 0)) (nodes G)))"
    by (simp_all add: sample_env_def)
  show ?thesis
    by (simp add: chart_optimization_graph_def mcp_mirror_def render_graph_def f sample_url
        sample_pick_def pick_id_def graph_cost_def pick_benefit_def round_double_numeral
        strategy_graph_image_def)
qed

lemma sample_main:
  "main sample_env sample_input =
     Inr \<lparr>images = [benefit_vs_cost_image ''data:image/png;base64,iVBORw0='',
                    strategy_graph_image ''data:image/png;base64,iVBORw0=''],
          nx_mcp_used = False, count = 2\<rparr>"
proof -
  have c2: "chart_risk_distribution sample_env (JArr []) = Inr None"
    by (simp add: chart_risk_distribution_def)
  have f: "\<not> HAS_NX_MCP sample_env" by (simp add: sample_env_def)
  show ?thesis
    by (simp add: main_of_read_input[OF sample_read_input] sample_benefit_vs_cost c2
        sample_strategy_graph produced_def f)
qed

theorem images_in_call_order_witness:
  "\<exists>d. main sample_env sample_input = Inr d \<and>
       map title (images d) = [''Benefit vs Cost'', ''Strategy Graph''] \<and>
       subseq (map title (images d)) [''Benefit vs Cost'', ''Risk Distribution'', ''Strategy Graph''] \<and>
       count d = 2"
  using images_in_call_order[OF sample_main]
  by (simp add: sample_main benefit_vs_cost_image_def strategy_graph_image_def)

subsection \<open>Data URLs\<close>

lemma fig_to_data_url_shape:
  "fig_to_data_url E fig = Inr url \<Longrightarrow> \<exists>bs. url = data_url_prefix @ b64encode bs"
  by (auto simp: fig_to_data_url_def bind_res_Inr_iff)

lemma chart_benefit_vs_cost_url:
  "chart_benefit_vs_cost E picks = Inr (Some c) \<Longrightarrow> \<exists>fig. fig_to_data_url E fig = Inr (dataUrl c)"
  by (auto simp: chart_benefit_vs_cost_def bind_res_Inr_iff split: if_splits)

lemma chart_risk_distribution_url:
  "chart_risk_distribution E sites = Inr (Some c) \<Longrightarrow> \<exists>fig. fig_to_data_url E fig = Inr (dataUrl c)"
  by (auto simp: chart_risk_distribution_def bind_res_Inr_iff split: if_splits)

lemma chart_optimization_graph_url:
  "chart_optimization_graph E picks = Inr (Some c) \<Longrightarrow> \<exists>fig. fig_to_data_url E fig = Inr (dataUrl c)"
proof -
  assume "chart_optimization_graph E picks = Inr (Some c)"
  then have "render_graph E picks = Inr c" by (rule chart_optimization_graph_render)
  then obtain fig url where "fig_to_data_url E fig = Inr url" and "dataUrl c = url"
    unfolding render_graph_def bind_res_Inr_iff by auto
  then show ?thesis by blast
qed

lemma produced_member: "c \<in> set (produced r) \<Longrightarrow> r = Inr (Some c)"
  by (auto simp: produced_def split: sum.splits option.splits)

lemma main_image_url:
  assumes "main E inp = Inr d" and "c \<in> set (images d)"
  shows "\<exists>fig. fig_to_data_url E fig = Inr (dataUrl c)"
proof -
  obtain picks sites where r: "read_input E inp = Inr (picks, sites)"
    using main_Inr_read_input[OF assms(1)] by blast
  have "images d = produced (chart_benefit_vs_cost E picks) @
                   produced (chart_risk_distribution E sites) @
                   produced (chart_optimization_graph E picks)"
    using assms(1) main_of_read_input[OF r] by auto
  then consider "chart_benefit_vs_cost E picks = Inr (Some c)"
    | "chart_risk_distribution E sites = Inr (Some c)"
    | "chart_optimization_graph E picks = Inr (Some c)"
    using assms(2) by (auto dest: produced_member)
  then show ?thesis
    by cases (auto dest: chart_benefit_vs_cost_url chart_risk_distribution_url chart_optimization_graph_url)
qed

text \<open>
  Claim C9: every \<^verbatim>\<open>dataUrl\<close> in the output starts with the literal prefix
  \<^verbatim>\<open>data:image/png;base64,\<close> and what follows the prefix decodes as base64.
\<close>

theorem dataUrl_prefix_and_base64:
  assumes "main E inp = Inr d"
  shows "\<forall>c \<in> set (images d).
           take 22 (dataUrl c) = ''data:image/png;base64,'' \<and>
           (\<exists>bs. b64decode (drop 22 (dataUrl c)) = Some bs)"
proof
  fix c assume "c \<in> set (images d)"
  then obtain fig where "fig_to_data_url E fig = Inr (dataUrl c)"
    using main_image_url[OF assms] by blast
  then obtain bs where u: "dataUrl c = data_url_prefix @ b64encode bs"
    using fig_to_data_url_shape by blast
  have l: "length data_url_prefix = 22" and p: "data_url_prefix = ''data:image/png;base64,''"
    by (simp_all add: data_url_prefix_def)
  have "take 22 (dataUrl c) = ''data:image/png;base64,''"
    unfolding u using l p by simp
  moreover have "b64decode (drop 22 (dataUrl c)) = Some bs"
    unfolding u using l by (simp add: b64_roundtrip)
  ultimately show "take 22 (dataUrl c) = ''data:image/png;base64,'' \<and>
           (\<exists>bs. b64decode (drop 22 (dataUrl c)) = Some bs)" by blast
qed

theorem dataUrl_prefix_and_base64_witness:
  "\<exists>d c1 c3. main sample_env sample_input = Inr d \<and> images d = [c1, c3] \<and>
      take 22 (dataUrl c1) = ''data:image/png;base64,'' \<and>
      take 22 (dataUrl c3) = ''data:image/png;base64,'' \<and>
      (\<exists>bs. b64decode (drop 22 (dataUrl c1)) = Some bs) \<and>
      (\<exists>bs. b64decode (drop 22 (dataUrl c3)) = Some bs)"
  using dataUrl_prefix_and_base64[OF sample_main] by (simp add: sample_main)

subsection \<open>Risk distribution\<close>

lemma site_risks_Nil_iff: "site_risks E (JArr ss) = Inr [] \<longleftrightarrow> (\<forall>s \<in> set ss. s = JNull)"
proof -
  have "filter is_not_None ss = [] \<longleftrightarrow> (\<forall>s \<in> set ss. s = JNull)"
    by (induction ss) (auto elim: is_not_None.elims)
  then show ?thesis by (simp add: site_risks_def map_res_Nil_iff)
qed

lemma is_not_None_iff: "is_not_None s \<longleftrightarrow> s \<noteq> JNull"
  by (cases s) simp_all

lemma chart_risk_distribution_None_iff:
  "chart_risk_distribution E (JArr ss) = Inr None \<longleftrightarrow> (\<forall>s \<in> set ss. s = JNull)"
proof (cases "ss = []")
  case True
  then show ?thesis by (simp add: chart_risk_distribution_def)
next
  case False
  show ?thesis
  proof (cases "site_risks E (JArr ss)")
    case (Inl e)
    then have "\<not> (\<forall>s \<in> set ss. s = JNull)"
      using site_risks_Nil_iff[of E ss] by simp
    then show ?thesis using False Inl by (simp add: chart_risk_distribution_def)
  next
    case (Inr risks)
    then show ?thesis using False site_risks_Nil_iff[of E ss]
      by (cases "fig_to_data_url E (risk_distribution_fig risks)")
         (auto simp: chart_risk_distribution_def)
  qed
qed

text \<open>
  Claim C10: null entries of the sites list are skipped: the builder gives the same
  result as for the list without them, they contribute no risk value, and a non-empty
  list of nulls makes the builder return nothing, not raise.
\<close>

theorem null_sites_skipped:
  "chart_risk_distribution E (JArr ss) = chart_risk_distribution E (JArr (filter (\<lambda>s. s \<noteq> JNull) ss)) \<and>
   site_risks E (JArr ss) = site_risks E (JArr (filter (\<lambda>s. s \<noteq> JNull) ss)) \<and>
   site_risks E (JArr (xs @ JNull # ys)) = site_risks E (JArr (xs @ ys)) \<and>
   (ss \<noteq> [] \<and> (\<forall>s \<in> set ss. s = JNull) \<longrightarrow> chart_risk_distribution E (JArr ss) = Inr None)"
proof -
  let ?ss' = "filter (\<lambda>s. s \<noteq> JNull) ss"
  have f: "is_not_None = (\<lambda>s. s \<noteq> JNull)" by (rule ext) (rule is_not_None_iff)
  have r: "site_risks E (JArr ss) = site_risks E (JArr ?ss')"
    by (simp add: site_risks_def f)
  have c: "chart_risk_distribution E (JArr ss) = chart_risk_distribution E (JArr ?ss')"
  proof (cases "?ss' = []")
    case True
    then have "\<forall>s \<in> set ss. s = JNull" by (auto simp: filter_empty_conv)
    then have "chart_risk_distribution E (JArr ss) = Inr None"
      by (simp add: chart_risk_distribution_None_iff)
    then show ?thesis using True by (simp add: chart_risk_distribution_def)
  next
    case False
    then have "ss \<noteq> []" by auto
    then show ?thesis using False r by (simp add: chart_risk_distribution_def)
  qed
  have m: "site_risks E (JArr (xs @ JNull # ys)) = site_risks E (JArr (xs @ ys))"
    by (simp add: site_risks_def)
  show ?thesis using r c m by (simp add: chart_risk_distribution_None_iff)
qed

theorem null_sites_skipped_witness:
  "chart_risk_distribution sample_env (JArr [JNull, JObj [(''Risk'', JFloat (Fin (1 / 2)))], JNull]) =
     chart_risk_distribution sample_env (JArr [JObj [(''Risk'', JFloat (Fin (1 / 2)))]]) \<and>
   site_risks sample_env (JArr [JNull, JObj [(''Risk'', JFloat (Fin (1 / 2)))], JNull]) = Inr [Fin (1 / 2)] \<and>
   chart_risk_distribution sample_env (JArr [JNull, JNull]) = Inr None"
proof -
  have a: "filter (\<lambda>s. s \<noteq> JNull) [JNull, JObj [(''Risk'', JFloat (Fin (1 / 2)))], JNull] =
      [JObj [(''Risk'', JFloat (Fin (1 / 2)))]]"
    by simp
  have b: "site_risks sample_env (JArr [JObj [(''Risk'', JFloat (Fin (1 / 2)))]]) = Inr [Fin (1 / 2)]"
    by (simp add: site_risks_def site_risk_def)
  have c: "chart_risk_distribution sample_env (JArr []) = Inr None"
    by (simp add: chart_risk_distribution_def)
  show ?thesis
    using null_sites_skipped[of sample_env "[JNull, JObj [(''Risk'', JFloat (Fin (1 / 2)))], JNull]" "[]" "[]"]
      null_sites_skipped[of sample_env "[JNull, JNull]" "[]" "[]"] b c
    unfolding a by simp
qed

subsection \<open>Numeric fields\<close>

lemma map_res_fails_at: "x \<in> set xs \<Longrightarrow> f x = Inl e \<Longrightarrow> \<exists>e'. map_res f xs = Inl e'"
  by (induction xs) (auto split: sum.splits)

lemma map_res_fails: "\<exists>x \<in> set xs. \<exists>e. f x = Inl e \<Longrightarrow> \<exists>e. map_res f xs = Inl e"
  using map_res_fails_at by fast

lemma round_double_zero_one [simp]: "round_double 0 = 0" "round_double 1 = 1"
  using round_double_int[of 0] round_double_int[of 1] by simp_all

lemma py_float_zero_one: "py_float E (JInt 0) = Inr (Fin 0)" "py_float E (JInt 1) = Inr (Fin 1)"
  by simp_all

lemma float_rejects_fields:
  "float_rejects E p ''cost'' \<Longrightarrow> \<exists>e. pick_cost E p = Inl e"
  "float_rejects E p ''cost'' \<Longrightarrow> \<exists>e. graph_cost E p = Inl e"
  "float_rejects E p ''benefit'' \<Longrightarrow> \<exists>e. pick_benefit E p = Inl e"
  "float_rejects E p ''Risk'' \<Longrightarrow> \<exists>e. site_risk E p = Inl e"
  by (auto simp: float_rejects_def pick_cost_def graph_cost_def pick_benefit_def site_risk_def)

lemma benefit_vs_cost_fig_fails:
  assumes "\<exists>p \<in> set ps. (\<exists>e. pick_cost E p = Inl e) \<or> (\<exists>e. pick_benefit E p = Inl e)"
  shows "\<exists>e. benefit_vs_cost_fig E (JArr ps) = Inl e"
proof (cases "map_res (\<lambda>p. bind_res (pick_cost E p) (\<lambda>c. Inr (max2 (Fin 1) c))) ps")
  case (Inl e)
  then show ?thesis by (simp add: benefit_vs_cost_fig_def)
next
  case (Inr xs)
  have "\<not> (\<exists>p \<in> set ps. \<exists>e. bind_res (pick_cost E p) (\<lambda>c. Inr (max2 (Fin 1) c)) = Inl e)"
    using map_res_fails[of ps "\<lambda>p. bind_res (pick_cost E p) (\<lambda>c. Inr (max2 (Fin 1) c))"] Inr
    by auto
  then have "\<not> (\<exists>p \<in> set ps. \<exists>e. pick_cost E p = Inl e)" by auto
  then have "\<exists>p \<in> set ps. \<exists>e. pick_benefit E p = Inl e" using assms by blast
  then obtain e where "map_res (pick_benefit E) ps = Inl e"
    using map_res_fails[of ps "pick_benefit E"] by blast
  then show ?thesis using Inr by (simp add: benefit_vs_cost_fig_def)
qed

lemma add_picks_fails:
  "\<exists>p \<in> set ps. (\<exists>e. graph_cost E p = Inl e) \<or> (\<exists>e. pick_benefit E p = Inl e) \<Longrightarrow>
   \<exists>e. add_picks E ps G = Inl e"
proof (induction ps arbitrary: G)
  case Nil
  then show ?case by simp
next
  case (Cons p ps)
  show ?case
  proof (cases "(\<exists>e. graph_cost E p = Inl e) \<or> (\<exists>e. pick_benefit E p = Inl e)")
    case True
    then show ?thesis by (auto simp: bind_res_def split: sum.splits)
  next
    case False
    then have "\<exists>p \<in> set ps. (\<exists>e. graph_cost E p = Inl e) \<or> (\<exists>e. pick_benefit E p = Inl e)"
      using Cons.prems by auto
    then have "\<exists>e. add_picks E ps G' = Inl e" for G' by (rule Cons.IH)
    then show ?thesis by (simp add: bind_res_def split: sum.splits)
  qed
qed

lemma chart_optimization_graph_unfold:
  "chart_optimization_graph E picks =
     (if \<not> truthy picks \<or> \<not> nx_available E then Inr None
      else (case render_graph E picks of Inl e \<Rightarrow> Inr None | Inr c \<Rightarrow> Inr (Some c)))"
  by (cases "mcp_mirror E picks") (simp_all add: chart_optimization_graph_def)

lemma bad_pick_no_charts:
  assumes "\<exists>p \<in> set ps. float_rejects E p ''cost'' \<or> float_rejects E p ''benefit''"
  shows "\<exists>e. chart_benefit_vs_cost E (JArr ps) = Inl e"
    and "chart_optimization_graph E (JArr ps) = Inr None"
proof -
  have ne: "ps \<noteq> []" using assms by auto
  have "\<exists>p \<in> set ps. (\<exists>e. pick_cost E p = Inl e) \<or> (\<exists>e. pick_benefit E p = Inl e)"
    using assms float_rejects_fields(1,3) by blast
  then obtain e where "benefit_vs_cost_fig E (JArr ps) = Inl e"
    using benefit_vs_cost_fig_fails by blast
  then show "\<exists>e. chart_benefit_vs_cost E (JArr ps) = Inl e"
    using ne by (simp add: chart_benefit_vs_cost_def)
  have "\<exists>p \<in> set ps. (\<exists>e. graph_cost E p = Inl e) \<or> (\<exists>e. pick_benefit E p = Inl e)"
    using assms float_rejects_fields(2,3) by blast
  then obtain e where "add_picks E ps
      (add_node ''RiskReduction'' (add_node ''Budget'' \<lparr>nodes = [], edges = []\<rparr>)) = Inl e"
    using add_picks_fails by blast
  then have "render_graph E (JArr ps) = Inl e"
    by (simp add: render_graph_def)
  then show "chart_optimization_graph E (JArr ps) = Inr None"
    by (auto simp: chart_optimization_graph_unfold)
qed

lemma bad_site_no_chart:
  assumes "\<exists>s \<in> set ss. float_rejects E s ''Risk''"
  shows "\<exists>e. chart_risk_distribution E (JArr ss) = Inl e"
proof -
  obtain s where s: "s \<in> set ss" "float_rejects E s ''Risk''" using assms by blast
  then have "is_not_None s" by (auto simp: float_rejects_def)
  then have "s \<in> set (filter is_not_None ss)" using s(1) by simp
  then have "\<exists>e. map_res (site_risk E) (filter is_not_None ss) = Inl e"
    using float_rejects_fields(4)[OF s(2)] by (intro map_res_fails) blast
  moreover have "ss \<noteq> []" using s(1) by auto
  ultimately show ?thesis by (auto simp: chart_risk_distribution_def site_risks_def)
qed

text \<open>
  Claim C2 says that a cost, benefit or Risk that is absent or malformed defaults to 0
  instead of failing the builder. The default is the second argument of \<^verbatim>\<open>dict.get\<close>: it
  stands in for an absent key only (0 for cost and benefit in the benefit-vs-cost chart
  and for Risk; 1 for cost in the relationship graph). A value that is present goes to
  \<^verbatim>\<open>float()\<close> as it is, and \<^verbatim>\<open>float()\<close> raises on null, lists and objects (TypeError) and
  on text its parser rejects (ValueError). When it raises on the cost or benefit of a
  pick, the benefit-vs-cost builder raises and the relationship-graph builder returns
  nothing; when it raises on the Risk of a site, the risk-distribution builder raises;
  \<^verbatim>\<open>main\<close> then writes its document without these charts.
\<close>

theorem absent_fields_default:
  "(map_of m ''cost'' = None \<longrightarrow>
      pick_cost E (JObj m) = Inr (Fin 0) \<and> graph_cost E (JObj m) = Inr (Fin 1)) \<and>
   (map_of m ''benefit'' = None \<longrightarrow> pick_benefit E (JObj m) = Inr (Fin 0)) \<and>
   (map_of m ''Risk'' = None \<longrightarrow> site_risk E (JObj m) = Inr (Fin 0)) \<and>
   (\<forall>v. map_of m ''cost'' = Some v \<longrightarrow>
      pick_cost E (JObj m) = py_float E v \<and> graph_cost E (JObj m) = py_float E v) \<and>
   (\<forall>v. map_of m ''benefit'' = Some v \<longrightarrow> pick_benefit E (JObj m) = py_float E v) \<and>
   (\<forall>v. map_of m ''Risk'' = Some v \<longrightarrow> site_risk E (JObj m) = py_float E v) \<and>
   py_float E JNull = Inl TypeError \<and>
   (\<forall>xs. py_float E (JArr xs) = Inl TypeError) \<and>
   (\<forall>kvs. py_float E (JObj kvs) = Inl TypeError) \<and>
   (\<forall>s. float_of_str E s = None \<longrightarrow> py_float E (JStr s) = Inl ValueError) \<and>
   ((\<exists>p \<in> set ps. float_rejects E p ''cost'' \<or> float_rejects E p ''benefit'') \<longrightarrow>
      (\<exists>e. chart_benefit_vs_cost E (JArr ps) = Inl e) \<and>
      chart_optimization_graph E (JArr ps) = Inr None \<and>
      (\<forall>inp sites. read_input E inp = Inr (JArr ps, sites) \<longrightarrow>
         (\<exists>d. main E inp = Inr d \<and> images d = produced (chart_risk_distribution E sites)))) \<and>
   ((\<exists>s \<in> set ss. float_rejects E s ''Risk'') \<longrightarrow>
      (\<exists>e. chart_risk_distribution E (JArr ss) = Inl e) \<and>
      (\<forall>inp picks. read_input E inp = Inr (picks, JArr ss) \<longrightarrow>
         (\<exists>d. main E inp = Inr d \<and>
              images d = produced (chart_benefit_vs_cost E picks) @
                         produced (chart_optimization_graph E picks))))"
proof -
  have absent: "(map_of m ''cost'' = None \<longrightarrow>
      pick_cost E (JObj m) = Inr (Fin 0) \<and> graph_cost E (JObj m) = Inr (Fin 1)) \<and>
   (map_of m ''benefit'' = None \<longrightarrow> pick_benefit E (JObj m) = Inr (Fin 0)) \<and>
   (map_of m ''Risk'' = None \<longrightarrow> site_risk E (JObj m) = Inr (Fin 0))"
    by (simp add: pick_cost_def graph_cost_def pick_benefit_def site_risk_def py_float_zero_one)
  have present: "(\<forall>v. map_of m ''cost'' = Some v \<longrightarrow>
      pick_cost E (JObj m) = py_float E v \<and> graph_cost E (JObj m) = py_float E v) \<and>
   (\<forall>v. map_of m ''benefit'' = Some v \<longrightarrow> pick_benefit E (JObj m) = py_float E v) \<and>
   (\<forall>v. map_of m ''Risk'' = Some v \<longrightarrow> site_risk E (JObj m) = py_float E v)"
    by (simp add: pick_cost_def graph_cost_def pick_benefit_def site_risk_def)
  have rejects: "py_float E JNull = Inl TypeError \<and>
   (\<forall>xs. py_float E (JArr xs) = Inl TypeError) \<and>
   (\<forall>kvs. py_float E (JObj kvs) = Inl TypeError) \<and>
   (\<forall>s. float_of_str E s = None \<longrightarrow> py_float E (JStr s) = Inl ValueError)"
    by simp
  have picks: "(\<exists>e. chart_benefit_vs_cost E (JArr ps) = Inl e) \<and>
      chart_optimization_graph E (JArr ps) = Inr None \<and>
      (\<forall>inp sites. read_input E inp = Inr (JArr ps, sites) \<longrightarrow>
         (\<exists>d. main E inp = Inr d \<and> images d = produced (chart_risk_distribution E sites)))"
    if h: "\<exists>p \<in> set ps. float_rejects E p ''cost'' \<or> float_rejects E p ''benefit''"
  proof -
    note b = bad_pick_no_charts[OF h]
    from b(1) obtain e where e: "chart_benefit_vs_cost E (JArr ps) = Inl e" by blast
    have "\<exists>d. main E inp = Inr d \<and> images d = produced (chart_risk_distribution E sites)"
      if "read_input E inp = Inr (JArr ps, sites)" for inp sites
      by (simp add: main_of_read_input[OF that] e b(2) produced_def)
    then show ?thesis using b by blast
  qed
  have sites: "(\<exists>e. chart_risk_distribution E (JArr ss) = Inl e) \<and>
      (\<forall>inp picks. read_input E inp = Inr (picks, JArr ss) \<longrightarrow>
         (\<exists>d. main E inp = Inr d \<and>
              images d = produced (chart_benefit_vs_cost E picks) @
                         produced (chart_optimization_graph E picks)))"
    if h: "\<exists>s \<in> set ss. float_rejects E s ''Risk''"
  proof -
    from bad_site_no_chart[OF h] obtain e where e: "chart_risk_distribution E (JArr ss) = Inl e"
      by blast
    have "\<exists>d. main E inp = Inr d \<and>
              images d = produced (chart_benefit_vs_cost E picks) @
                         produced (chart_optimization_graph E picks)"
      if "read_input E inp = Inr (picks, JArr ss)" for inp picks
      by (simp add: main_of_read_input[OF that] e produced_def)
    then show ?thesis using e by blast
  qed
  show ?thesis using absent present rejects picks sites by blast
qed

theorem absent_fields_default_witness:
  "pick_cost sample_env (JObj [(''id'', JStr ''A'')]) = Inr (Fin 0) \<and>
   graph_cost sample_env (JObj [(''id'', JStr ''A'')]) = Inr (Fin 1) \<and>
   pick_benefit sample_env (JObj [(''id'', JStr ''A'')]) = Inr (Fin 0) \<and>
   site_risk sample_env (JObj []) = Inr (Fin 0) \<and>
   pick_cost sample_env (JObj [(''cost'', JFloat (Fin 7))]) = Inr (Fin 7) \<and>
   pick_cost sample_env (JObj [(''cost'', JStr ''high'')]) = Inl ValueError \<and>
   float_rejects sample_env (JObj [(''cost'', JNull)]) ''cost'' \<and>
   (\<exists>e. chart_benefit_vs_cost sample_env (JArr [sample_pick, JObj [(''cost'', JNull)]]) = Inl e) \<and>
   chart_optimization_graph sample_env (JArr [sample_pick, JObj [(''cost'', JNull)]]) = Inr None \<and>
   float_rejects sample_env (JObj [(''Risk'', JStr ''high'')]) ''Risk'' \<and>
   (\<exists>e. chart_risk_distribution sample_env
          (JArr [JObj [(''Risk'', JFloat (Fin (1 / 2)))], JObj [(''Risk'', JStr ''high'')]]) = Inl e)"
proof -
  have f: "float_of_str sample_env ''high'' = None" by (simp add: sample_env_def)
  have r: "float_rejects sample_env (JObj [(''cost'', JNull)]) ''cost''"
    "float_rejects sample_env (JObj [(''Risk'', JStr ''high'')]) ''Risk''"
    by (simp_all add: float_rejects_def f)
  show ?thesis
    using absent_fields_default[of "[(''id'', JStr ''A'')]" sample_env
            "[sample_pick, JObj [(''cost'', JNull)]]"
            "[JObj [(''Risk'', JFloat (Fin (1 / 2)))], JObj [(''Risk'', JStr ''high'')]]"]
      absent_fields_default[of "[]" sample_env "[]" "[]"]
      absent_fields_default[of "[(''cost'', JFloat (Fin 7))]" sample_env "[]" "[]"]
      absent_fields_default[of "[(''cost'', JStr ''high'')]" sample_env "[]" "[]"] f r
    by simp
qed

text \<open>The claim as stated fails for a pick whose cost is null, and for a site whose Risk is null.\<close>

theorem malformed_cost_raises:
  "pick_cost sample_env (JObj [(''id'', JStr ''A''), (''cost'', JNull)]) = Inl TypeError \<and>
   chart_benefit_vs_cost sample_env (JArr [JObj [(''id'', JStr ''A''), (''cost'', JNull)]]) = Inl TypeError \<and>
   pick_benefit sample_env (JObj [(''benefit'', JArr [])]) = Inl TypeError \<and>
   site_risk sample_env (JObj [(''Risk'', JNull)]) = Inl TypeError \<and>
   chart_risk_distribution sample_env (JArr [JObj [(''Risk'', JNull)]]) = Inl TypeError"
  by (simp add: pick_cost_def pick_benefit_def site_risk_def chart_benefit_vs_cost_def
      benefit_vs_cost_fig_def chart_risk_distribution_def site_risks_def)

subsection \<open>Risk distribution, case by case\<close>

lemma fig_to_data_url_cases:
  "(savefig E fig = Inr png \<longrightarrow> fig_to_data_url E fig = Inr (data_url_prefix @ b64encode png)) \<and>
   (savefig E fig = Inl e \<longrightarrow> fig_to_data_url E fig = Inl e)"
  by (simp add: fig_to_data_url_def)

text \<open>
  Claim C8 says that the risk chart is left out exactly when the sites hold no valid
  numeric Risk, and that a histogram over the fixed bins is produced otherwise. The
  builder does not sort entries into valid and invalid: it skips null entries only, and
  one entry whose Risk \<^verbatim>\<open>float()\<close> rejects makes the whole call raise, whatever the other
  entries hold. The theorem gives the result of the builder in every case: nothing when
  no entry is left; the exception of the first conversion that fails; the chart with
  the rendered histogram of the converted values over the fixed bin edges; the
  exception of the renderer.
\<close>

theorem chart_risk_distribution_spec:
  "(chart_risk_distribution E (JArr ss) = Inr None \<longleftrightarrow> (\<forall>s \<in> set ss. s = JNull)) \<and>
   (\<forall>e. map_res (site_risk E) (filter (\<lambda>s. s \<noteq> JNull) ss) = Inl e \<longrightarrow>
      chart_risk_distribution E (JArr ss) = Inl e) \<and>
   (\<forall>risks. map_res (site_risk E) (filter (\<lambda>s. s \<noteq> JNull) ss) = Inr risks \<and> risks \<noteq> [] \<longrightarrow>
      content (risk_distribution_fig risks) =
        Histogram risks
          [Fin 0, to_float (2 / 10), to_float (4 / 10), to_float (6 / 10), to_float (8 / 10), Fin 1] \<and>
      (\<forall>png. savefig E (risk_distribution_fig risks) = Inr png \<longrightarrow>
         chart_risk_distribution E (JArr ss) =
           Inr (Some (risk_distribution_image (data_url_prefix @ b64encode png)))) \<and>
      (\<forall>e. savefig E (risk_distribution_fig risks) = Inl e \<longrightarrow>
         chart_risk_distribution E (JArr ss) = Inl e)) \<and>
   (\<forall>m. map_of m ''Risk'' = None \<longrightarrow> site_risk E (JObj m) = Inr (Fin 0)) \<and>
   (\<forall>m v. map_of m ''Risk'' = Some v \<longrightarrow> site_risk E (JObj m) = py_float E v) \<and>
   (\<forall>s. (\<forall>m. s \<noteq> JObj m) \<longrightarrow> site_risk E s = Inl AttributeError)"
proof -
  have f: "is_not_None = (\<lambda>s. s \<noteq> JNull)" by (rule ext) (rule is_not_None_iff)
  have sr: "site_risks E (JArr ss) = map_res (site_risk E) (filter (\<lambda>s. s \<noteq> JNull) ss)"
    by (simp add: site_risks_def f)
  have a: "chart_risk_distribution E (JArr ss) = Inl e"
    if "map_res (site_risk E) (filter (\<lambda>s. s \<noteq> JNull) ss) = Inl e" for e
  proof -
    have "ss \<noteq> []" using that by auto
    then show ?thesis using that sr by (simp add: chart_risk_distribution_def)
  qed
  have b: "content (risk_distribution_fig risks) =
        Histogram risks
          [Fin 0, to_float (2 / 10), to_float (4 / 10), to_float (6 / 10), to_float (8 / 10), Fin 1] \<and>
      (\<forall>png. savefig E (risk_distribution_fig risks) = Inr png \<longrightarrow>
         chart_risk_distribution E (JArr ss) =
           Inr (Some (risk_distribution_image (data_url_prefix @ b64encode png)))) \<and>
      (\<forall>e. savefig E (risk_distribution_fig risks) = Inl e \<longrightarrow>
         chart_risk_distribution E (JArr ss) = Inl e)"
    if r: "map_res (site_risk E) (filter (\<lambda>s. s \<noteq> JNull) ss) = Inr risks" "risks \<noteq> []" for risks
  proof -
    have ne: "ss \<noteq> []" using r by auto
    have c: "chart_risk_distribution E (JArr ss) =
        bind_res (fig_to_data_url E (risk_distribution_fig risks))
          (\<lambda>url. Inr (Some (risk_distribution_image url)))"
      using ne r sr by (simp add: chart_risk_distribution_def risk_distribution_image_def)
    show ?thesis
      using fig_to_data_url_cases[of E "risk_distribution_fig risks"]
      by (auto simp: c risk_distribution_fig_def risk_bins_def)
  qed
  have d: "(\<forall>m. map_of m ''Risk'' = None \<longrightarrow> site_risk E (JObj m) = Inr (Fin 0)) \<and>
   (\<forall>m v. map_of m ''Risk'' = Some v \<longrightarrow> site_risk E (JObj m) = py_float E v) \<and>
   (\<forall>s. (\<forall>m. s \<noteq> JObj m) \<longrightarrow> site_risk E s = Inl AttributeError)"
    by (simp add: site_risk_def py_get_non_object)
  show ?thesis using a b d chart_risk_distribution_None_iff[of E ss] by blast
qed

theorem chart_risk_distribution_spec_witness:
  "chart_risk_distribution sample_env (JArr [JNull]) = Inr None \<and>
   chart_risk_distribution sample_env (JArr [JObj [(''Risk'', JArr [])]]) = Inl TypeError \<and>
   content (risk_distribution_fig [Fin (1 / 10), Fin 0]) =
     Histogram [Fin (1 / 10), Fin 0]
       [Fin 0, to_float (2 / 10), to_float (4 / 10), to_float (6 / 10), to_float (8 / 10), Fin 1] \<and>
   chart_risk_distribution sample_env
     (JArr [JObj [(''Risk'', JFloat (Fin (1 / 10)))], JNull, JObj []]) =
     Inr (Some (risk_distribution_image ''data:image/png;base64,iVBORw0='')) \<and>
   chart_risk_distribution sample_env_no_render
     (JArr [JObj [(''Risk'', JFloat (Fin (1 / 10)))], JNull, JObj []]) =
     Inl (LibraryError ''no renderer'')"
proof -
  let ?ss = "[JObj [(''Risk'', JFloat (Fin (1 / 10)))], JNull, JObj []]"
  have m: "map_res (site_risk E) (filter (\<lambda>s. s \<noteq> JNull) ?ss) = Inr [Fin (1 / 10), Fin 0]"
    "map_res (site_risk E) (filter (\<lambda>s. s \<noteq> JNull) [JObj [(''Risk'', JArr [])]]) = Inl TypeError"
    for E :: "unit env"
    by (simp_all add: site_risk_def)
  have s: "savefig sample_env fig = Inr [0x89, 0x50, 0x4E, 0x47, 0x0D]"
    "savefig sample_env_no_render fig = Inl (LibraryError ''no renderer'')" for fig
    by (simp_all add: sample_env_def sample_env_no_render_def)
  have u: "data_url_prefix @ b64encode [0x89, 0x50, 0x4E, 0x47, 0x0D] = ''data:image/png;base64,iVBORw0=''"
    by (simp add: data_url_prefix_def b64_char_def b64_alphabet_def Let_def)
  have ne: "[Fin (1 / 10), Fin 0] \<noteq> ([] :: pyfloat list)" by simp
  have c1: "chart_risk_distribution sample_env (JArr [JNull]) = Inr None"
    using chart_risk_distribution_spec[of sample_env "[JNull]"] by simp
  have c2: "chart_risk_distribution sample_env (JArr [JObj [(''Risk'', JArr [])]]) = Inl TypeError"
    using chart_risk_distribution_spec[of sample_env "[JObj [(''Risk'', JArr [])]]"]
      m(2)[of sample_env] by blast
  have c3: "content (risk_distribution_fig [Fin (1 / 10), Fin 0]) =
     Histogram [Fin (1 / 10), Fin 0]
       [Fin 0, to_float (2 / 10), to_float (4 / 10), to_float (6 / 10), to_float (8 / 10), Fin 1]"
    using chart_risk_distribution_spec[of sample_env ?ss] m(1)[of sample_env] ne by blast
  have c4: "chart_risk_distribution sample_env (JArr ?ss) =
     Inr (Some (risk_distribution_image (data_url_prefix @ b64encode [0x89, 0x50, 0x4E, 0x47, 0x0D])))"
    using chart_risk_distribution_spec[of sample_env ?ss] m(1)[of sample_env] ne
      s(1)[of "risk_distribution_fig [Fin (1 / 10), Fin 0]"] by blast
  have c5: "chart_risk_distribution sample_env_no_render (JArr ?ss) = Inl (LibraryError ''no renderer'')"
    using chart_risk_distribution_spec[of sample_env_no_render ?ss] m(1)[of sample_env_no_render] ne
      s(2)[of "risk_distribution_fig [Fin (1 / 10), Fin 0]"] by blast
  show ?thesis using c1 c2 c3 c4 c5 unfolding u by blast
qed

text \<open>The claim as stated fails for two sites of which one has a valid Risk and the other a
  null Risk: a valid numeric Risk exists, and no histogram is produced.\<close>

theorem invalid_risk_beside_valid_raises:
  "site_risk sample_env (JObj [(''Risk'', JFloat (Fin (9 / 10)))]) = Inr (Fin (9 / 10)) \<and>
   chart_risk_distribution sample_env
     (JArr [JObj [(''Risk'', JNull)], JObj [(''Risk'', JFloat (Fin (9 / 10)))]]) = Inl TypeError \<and>
   produced (chart_risk_distribution sample_env
     (JArr [JObj [(''Risk'', JNull)], JObj [(''Risk'', JFloat (Fin (9 / 10)))]])) = []"
  by (simp add: site_risk_def chart_risk_distribution_def site_risks_def produced_def)

subsection \<open>Benefit vs cost\<close>

lemma map_res_post:
  "map_res (\<lambda>p. bind_res (f p) (\<lambda>c. Inr (g c))) ps =
     (case map_res f ps of Inl e \<Rightarrow> Inl e | Inr cs \<Rightarrow> Inr (map g cs))"
  by (induction ps) (auto split: sum.splits)

lemma pick_id_of_cost: "pick_cost E p = Inr c \<Longrightarrow> \<exists>l. pick_id E p = Inr l"
  by (cases p) (simp_all add: pick_cost_def pick_id_def)

lemma labels_of_costs: "map_res (pick_cost E) ps = Inr cs \<Longrightarrow> \<exists>ls. map_res (pick_id E) ps = Inr ls"
proof (induction ps arbitrary: cs)
  case Nil
  then show ?case by simp
next
  case (Cons p ps)
  from Cons.prems obtain c cs' where c: "pick_cost E p = Inr c" "map_res (pick_cost E) ps = Inr cs'"
    by (auto split: sum.splits)
  obtain l where l: "pick_id E p = Inr l" using pick_id_of_cost[OF c(1)] by blast
  obtain ls where "map_res (pick_id E) ps = Inr ls" using Cons.IH[OF c(2)] by blast
  then show ?case using l by simp
qed

lemma fle_of_flt: "flt a b \<Longrightarrow> fle a b"
  using flt_not_NaN[of a b] flt_trans[of a b a] flt_irrefl[of a] by (auto simp: fle_def)

lemma fle_of_not_flt: "a \<noteq> NaN \<Longrightarrow> b \<noteq> NaN \<Longrightarrow> \<not> flt a b \<Longrightarrow> fle b a"
  by (simp add: fle_def)

lemma fold_max:
  assumes "m \<noteq> NaN" and "\<forall>x \<in> set xs. x \<noteq> NaN"
  defines "r \<equiv> fold (\<lambda>y m. if fgt y m then y else m) xs m"
  shows "r \<noteq> NaN \<and> (r = m \<or> r \<in> set xs) \<and> fle m r \<and> (\<forall>x \<in> set xs. fle x r)"
  using assms(1,2) unfolding r_def
proof (induction xs arbitrary: m)
  case Nil
  then show ?case by (simp add: fle_refl)
next
  case (Cons y ys)
  let ?m' = "if fgt y m then y else m"
  have y: "y \<noteq> NaN" using Cons.prems by simp
  have m': "?m' \<noteq> NaN" using y Cons.prems by simp
  have "fle m ?m' \<and> fle y ?m'"
  proof (cases "flt m y")
    case True
    then show ?thesis using y by (simp add: fgt_def fle_refl fle_of_flt)
  next
    case False
    then show ?thesis
      using y Cons.prems(1) by (simp add: fgt_def fle_refl fle_of_not_flt)
  qed
  then have a: "fle m ?m'" "fle y ?m'" by blast+
  note IH = Cons.IH[of ?m', OF m']
  have "\<forall>x \<in> set ys. x \<noteq> NaN" using Cons.prems by simp
  then have r: "fold (\<lambda>y m. if fgt y m then y else m) ys ?m' \<noteq> NaN"
    "fold (\<lambda>y m. if fgt y m then y else m) ys ?m' = ?m' \<or>
     fold (\<lambda>y m. if fgt y m then y else m) ys ?m' \<in> set ys"
    "fle ?m' (fold (\<lambda>y m. if fgt y m then y else m) ys ?m')"
    "\<forall>x \<in> set ys. fle x (fold (\<lambda>y m. if fgt y m then y else m) ys ?m')"
    using IH by blast+
  have e: "fold (\<lambda>y m. if fgt y m then y else m) (y # ys) m =
           fold (\<lambda>y m. if fgt y m then y else m) ys ?m'"
    by simp
  have "?m' = m \<or> ?m' = y" by simp
  then show ?case
    unfolding e using r fle_trans[OF a(1) r(3)] fle_trans[OF a(2) r(3)] by auto
qed

lemma fold_min:
  assumes "m \<noteq> NaN" and "\<forall>x \<in> set xs. x \<noteq> NaN"
  defines "r \<equiv> fold (\<lambda>y m. if flt y m then y else m) xs m"
  shows "r \<noteq> NaN \<and> (r = m \<or> r \<in> set xs) \<and> fle r m \<and> (\<forall>x \<in> set xs. fle r x)"
  using assms(1,2) unfolding r_def
proof (induction xs arbitrary: m)
  case Nil
  then show ?case by (simp add: fle_refl)
next
  case (Cons y ys)
  let ?m' = "if flt y m then y else m"
  have y: "y \<noteq> NaN" using Cons.prems by simp
  have m': "?m' \<noteq> NaN" using y Cons.prems by simp
  have "fle ?m' m \<and> fle ?m' y"
  proof (cases "flt y m")
    case True
    then show ?thesis using y by (simp add: fle_refl fle_of_flt)
  next
    case False
    then show ?thesis
      using y Cons.prems(1) by (simp add: fle_refl fle_of_not_flt)
  qed
  then have a: "fle ?m' m" "fle ?m' y" by blast+
  note IH = Cons.IH[of ?m', OF m']
  have "\<forall>x \<in> set ys. x \<noteq> NaN" using Cons.prems by simp
  then have r: "fold (\<lambda>y m. if flt y m then y else m) ys ?m' \<noteq> NaN"
    "fold (\<lambda>y m. if flt y m then y else m) ys ?m' = ?m' \<or>
     fold (\<lambda>y m. if flt y m then y else m) ys ?m' \<in> set ys"
    "fle (fold (\<lambda>y m. if flt y m then y else m) ys ?m') ?m'"
    "\<forall>x \<in> set ys. fle (fold (\<lambda>y m. if flt y m then y else m) ys ?m') x"
    using IH by blast+
  have e: "fold (\<lambda>y m. if flt y m then y else m) (y # ys) m =
           fold (\<lambda>y m. if flt y m then y else m) ys ?m'"
    by simp
  have "?m' = m \<or> ?m' = y" by simp
  then show ?case
    unfolding e using r fle_trans[OF r(3) a(1)] fle_trans[OF r(3) a(2)] by auto
qed

lemma py_max_is_maximum:
  assumes "xs \<noteq> []" and "\<forall>x \<in> set xs. x \<noteq> NaN"
  shows "\<exists>hi. py_max xs = Inr hi \<and> is_maximum hi xs"
proof -
  obtain x xs' where x: "xs = x # xs'" using assms(1) by (cases xs) auto
  have "x \<noteq> NaN" "\<forall>y \<in> set xs'. y \<noteq> NaN" using assms(2) x by auto
  from fold_max[OF this] show ?thesis
    by (auto simp: x is_maximum_def list_all_iff)
qed

lemma py_min_is_minimum:
  assumes "xs \<noteq> []" and "\<forall>x \<in> set xs. x \<noteq> NaN"
  shows "\<exists>lo. py_min xs = Inr lo \<and> is_minimum lo xs"
proof -
  obtain x xs' where x: "xs = x # xs'" using assms(1) by (cases xs) auto
  have "x \<noteq> NaN" "\<forall>y \<in> set xs'. y \<noteq> NaN" using assms(2) x by auto
  from fold_min[OF this] show ?thesis
    by (auto simp: x is_minimum_def list_all_iff)
qed

lemma py_truediv_Inr: "b \<noteq> Fin 0 \<Longrightarrow> \<exists>q. py_truediv a b = Inr q"
  by (cases a; cases b) auto

lemma fle_one_nonzero: "fle (Fin 1) x \<Longrightarrow> x \<noteq> Fin 0"
  by (auto simp: fle_def)

lemma benefit_vs_cost_fig_total:
  assumes "ps \<noteq> []" and cs: "map_res (pick_cost E) ps = Inr cs"
    and ys: "map_res (pick_benefit E) ps = Inr ys"
  shows "\<exists>fig labels hi lo q.
           benefit_vs_cost_fig E (JArr ps) = Inr fig \<and>
           content fig = Scatter (map (max2 (Fin 1)) cs) ys labels \<and>
           map_res (pick_id E) ps = Inr labels \<and>
           is_maximum hi (map (max2 (Fin 1)) cs) \<and>
           is_minimum lo (map (max2 (Fin 1)) cs) \<and>
           py_truediv hi lo = Inr q \<and>
           (log_x fig \<longleftrightarrow> fgt q (Fin 50))"
proof -
  let ?xs = "map (max2 (Fin 1)) cs"
  have xs: "map_res (\<lambda>p. bind_res (pick_cost E p) (\<lambda>c. Inr (max2 (Fin 1) c))) ps = Inr ?xs"
    by (simp add: map_res_post cs)
  obtain labels where ls: "map_res (pick_id E) ps = Inr labels"
    using labels_of_costs[OF cs] by blast
  have "cs \<noteq> []" using map_res_length[OF cs] assms(1) by auto
  then have ne: "?xs \<noteq> []" by simp
  have nn: "\<forall>x \<in> set ?xs. x \<noteq> NaN" and ge: "\<forall>x \<in> set ?xs. fle (Fin 1) x"
    using max2_floor by auto
  obtain hi where hi: "py_max ?xs = Inr hi" "is_maximum hi ?xs"
    using py_max_is_maximum[OF ne nn] by blast
  obtain lo where lo: "py_min ?xs = Inr lo" "is_minimum lo ?xs"
    using py_min_is_minimum[OF ne nn] by blast
  have "lo \<in> set ?xs" using lo(2) by (simp add: is_minimum_def)
  then have lo1: "fle (Fin 1) lo" using ge by blast
  then have m: "max2 (Fin 1) lo = lo" by (rule max2_idem)
  obtain q where q: "py_truediv hi lo = Inr q"
    using py_truediv_Inr[OF fle_one_nonzero[OF lo1]] by blast
  let ?fig = "\<lparr>content = Scatter ?xs ys labels, log_x = fgt q (Fin 50),
          x_label = ''Cost (USD)'', y_label = ''Benefit (risk reduction)'',
          fig_title = ''Benefit vs Cost of Selected Strategies''\<rparr>"
  have "benefit_vs_cost_fig E (JArr ps) = Inr ?fig"
    unfolding benefit_vs_cost_fig_def by (simp only: py_iter.simps bind_res_simps xs ys ls hi lo m q)
  then show ?thesis using ls hi(2) lo(2) q by (intro exI[of _ ?fig] exI[of _ labels] exI[of _ hi] exI[of _ lo] exI[of _ q]) simp
qed

lemma benefit_vs_cost_fig_conversion_fails:
  assumes "map_res (pick_cost E) ps = Inl e \<or>
           (\<exists>cs. map_res (pick_cost E) ps = Inr cs \<and> map_res (pick_benefit E) ps = Inl e)"
  shows "benefit_vs_cost_fig E (JArr ps) = Inl e"
  using assms by (auto simp: benefit_vs_cost_fig_def map_res_post)

lemma chart_benefit_vs_cost_None_iff:
  "chart_benefit_vs_cost E picks = Inr None \<longleftrightarrow> \<not> truthy picks"
  by (auto simp: chart_benefit_vs_cost_def bind_res_Inr_iff)

lemma chart_benefit_vs_cost_of_fig:
  assumes "ps \<noteq> []"
  shows "chart_benefit_vs_cost E (JArr ps) =
           bind_res (benefit_vs_cost_fig E (JArr ps)) (\<lambda>fig.
           bind_res (fig_to_data_url E fig) (\<lambda>url. Inr (Some (benefit_vs_cost_image url))))"
  using assms by (simp add: chart_benefit_vs_cost_def benefit_vs_cost_image_def)

text \<open>
  Claim C7 says that the points have the picks' costs floored at 1 and the picks'
  benefits as coordinates and that the x-axis is logarithmic exactly when the ratio of
  the largest to the smallest floored cost exceeds 50. The script computes with doubles:
  a cost is first converted by \<^verbatim>\<open>float()\<close>, and the ratio that is compared with 50 is the
  quotient \<^verbatim>\<open>max(xs) / max(1, min(xs))\<close> rounded to a double (\<^verbatim>\<open>max(1, min(xs))\<close> is
  \<^verbatim>\<open>min(xs)\<close>, since no x is below 1). The theorem gives the result of the builder for
  a picks list in every case: nothing exactly for the empty list; the exception of the
  first conversion that fails; otherwise the figure with these coordinates and this
  axis, returned as a chart when it is rendered, and the exception of the renderer when
  it is not.
\<close>

theorem chart_benefit_vs_cost_spec:
  "(chart_benefit_vs_cost E (JArr ps) = Inr None \<longleftrightarrow> ps = []) \<and>
   (\<forall>e. ps \<noteq> [] \<and>
      (map_res (pick_cost E) ps = Inl e \<or>
       (\<exists>cs. map_res (pick_cost E) ps = Inr cs \<and> map_res (pick_benefit E) ps = Inl e)) \<longrightarrow>
      chart_benefit_vs_cost E (JArr ps) = Inl e) \<and>
   (\<forall>cs ys. ps \<noteq> [] \<and> map_res (pick_cost E) ps = Inr cs \<and>
      map_res (pick_benefit E) ps = Inr ys \<longrightarrow>
      (\<exists>fig labels hi lo q.
         benefit_vs_cost_fig E (JArr ps) = Inr fig \<and>
         content fig = Scatter (map (max2 (Fin 1)) cs) ys labels \<and>
         map_res (pick_id E) ps = Inr labels \<and>
         is_maximum hi (map (max2 (Fin 1)) cs) \<and>
         is_minimum lo (map (max2 (Fin 1)) cs) \<and>
         py_truediv hi lo = Inr q \<and>
         (log_x fig \<longleftrightarrow> fgt q (Fin 50)) \<and>
         (\<forall>png. savefig E fig = Inr png \<longrightarrow>
            chart_benefit_vs_cost E (JArr ps) =
              Inr (Some (benefit_vs_cost_image (data_url_prefix @ b64encode png)))) \<and>
         (\<forall>e. savefig E fig = Inl e \<longrightarrow> chart_benefit_vs_cost E (JArr ps) = Inl e))) \<and>
   (\<forall>a b. b \<noteq> 0 \<longrightarrow> py_truediv (Fin a) (Fin b) = Inr (to_float (a / b)))"
proof -
  have a: "chart_benefit_vs_cost E (JArr ps) = Inr None \<longleftrightarrow> ps = []"
    by (simp add: chart_benefit_vs_cost_None_iff)
  have b: "chart_benefit_vs_cost E (JArr ps) = Inl e"
    if "ps \<noteq> []" and "map_res (pick_cost E) ps = Inl e \<or>
       (\<exists>cs. map_res (pick_cost E) ps = Inr cs \<and> map_res (pick_benefit E) ps = Inl e)" for e
    by (simp add: chart_benefit_vs_cost_of_fig[OF that(1)]
        benefit_vs_cost_fig_conversion_fails[OF that(2)])
  have c: "\<exists>fig labels hi lo q.
         benefit_vs_cost_fig E (JArr ps) = Inr fig \<and>
         content fig = Scatter (map (max2 (Fin 1)) cs) ys labels \<and>
         map_res (pick_id E) ps = Inr labels \<and>
         is_maximum hi (map (max2 (Fin 1)) cs) \<and>
         is_minimum lo (map (max2 (Fin 1)) cs) \<and>
         py_truediv hi lo = Inr q \<and>
         (log_x fig \<longleftrightarrow> fgt q (Fin 50)) \<and>
         (\<forall>png. savefig E fig = Inr png \<longrightarrow>
            chart_benefit_vs_cost E (JArr ps) =
              Inr (Some (benefit_vs_cost_image (data_url_prefix @ b64encode png)))) \<and>
         (\<forall>e. savefig E fig = Inl e \<longrightarrow> chart_benefit_vs_cost E (JArr ps) = Inl e)"
    if h: "ps \<noteq> []" "map_res (pick_cost E) ps = Inr cs" "map_res (pick_benefit E) ps = Inr ys"
    for cs ys
  proof -
    from benefit_vs_cost_fig_total[OF h] obtain fig labels hi lo q where
      f: "benefit_vs_cost_fig E (JArr ps) = Inr fig"
        "content fig = Scatter (map (max2 (Fin 1)) cs) ys labels"
        "map_res (pick_id E) ps = Inr labels"
        "is_maximum hi (map (max2 (Fin 1)) cs)"
        "is_minimum lo (map (max2 (Fin 1)) cs)"
        "py_truediv hi lo = Inr q"
        "log_x fig \<longleftrightarrow> fgt q (Fin 50)"
      by blast
    have r: "(\<forall>png. savefig E fig = Inr png \<longrightarrow>
            chart_benefit_vs_cost E (JArr ps) =
              Inr (Some (benefit_vs_cost_image (data_url_prefix @ b64encode png)))) \<and>
         (\<forall>e. savefig E fig = Inl e \<longrightarrow> chart_benefit_vs_cost E (JArr ps) = Inl e)"
      by (simp add: chart_benefit_vs_cost_of_fig[OF h(1)] f(1) fig_to_data_url_def)
    show ?thesis using f r by blast
  qed
  have d: "\<forall>a b. b \<noteq> 0 \<longrightarrow> py_truediv (Fin a) (Fin b) = Inr (to_float (a / b))"
    by simp
  show ?thesis using a b c d by blast
qed

lemma to_float_numeral:
  "numeral w < (2::int) ^ 53 \<Longrightarrow> to_float (numeral w) = Fin (numeral w)"
  using to_float_small_int[of "numeral w"] by simp

theorem chart_benefit_vs_cost_spec_witness:
  "chart_benefit_vs_cost sample_env (JArr []) = Inr None \<and>
   chart_benefit_vs_cost sample_env (JArr [JObj [(''cost'', JNull)]]) = Inl TypeError \<and>
   (\<exists>fig. benefit_vs_cost_fig sample_env
             (JArr [sample_pick, JObj [(''cost'', JInt 6000)], JObj [(''benefit'', JInt 3)]]) = Inr fig \<and>
      content fig = Scatter [Fin 100, Fin 6000, Fin 1] [Fin (1 / 2), Fin 0, Fin 3] [''A'', ''?'', ''?''] \<and>
      log_x fig) \<and>
   chart_benefit_vs_cost sample_env
     (JArr [sample_pick, JObj [(''cost'', JInt 6000)], JObj [(''benefit'', JInt 3)]]) =
     Inr (Some (benefit_vs_cost_image ''data:image/png;base64,iVBORw0='')) \<and>
   chart_benefit_vs_cost sample_env_no_render
     (JArr [sample_pick, JObj [(''cost'', JInt 6000)], JObj [(''benefit'', JInt 3)]]) =
     Inl (LibraryError ''no renderer'')"
proof -
  let ?ps = "[sample_pick, JObj [(''cost'', JInt 6000)], JObj [(''benefit'', JInt 3)]]"
  have ne: "?ps \<noteq> []" by simp
  have cs: "map_res (pick_cost E) ?ps = Inr [Fin 100, Fin 6000, Fin 0]"
    and ys: "map_res (pick_benefit E) ?ps = Inr [Fin (1 / 2), Fin 0, Fin 3]"
    for E :: "unit env"
    by (simp_all add: sample_pick_def pick_cost_def pick_benefit_def round_double_numeral)
  have f: "benefit_vs_cost_fig sample_env (JArr ?ps) = Inr
      \<lparr>content = Scatter [Fin 100, Fin 6000, Fin 1] [Fin (1 / 2), Fin 0, Fin 3] [''A'', ''?'', ''?''],
       log_x = True, x_label = ''Cost (USD)'', y_label = ''Benefit (risk reduction)'',
       fig_title = ''Benefit vs Cost of Selected Strategies''\<rparr>"
    by (simp add: benefit_vs_cost_fig_def sample_pick_def pick_cost_def pick_benefit_def pick_id_def
        round_double_numeral to_float_numeral max2_def fgt_def)
  have s: "savefig sample_env fig = Inr [0x89, 0x50, 0x4E, 0x47, 0x0D]"
    "savefig sample_env_no_render fig = Inl (LibraryError ''no renderer'')" for fig
    by (simp_all add: sample_env_def sample_env_no_render_def)
  have u: "data_url_prefix @ b64encode [0x89, 0x50, 0x4E, 0x47, 0x0D] = ''data:image/png;base64,iVBORw0=''"
    by (simp add: data_url_prefix_def b64_char_def b64_alphabet_def Let_def)
  have c1: "chart_benefit_vs_cost sample_env (JArr []) = Inr None"
    using chart_benefit_vs_cost_spec[of sample_env "[]"] by simp
  have c2: "chart_benefit_vs_cost sample_env (JArr [JObj [(''cost'', JNull)]]) = Inl TypeError"
    by (rule chart_benefit_vs_cost_spec[of sample_env "[JObj [(''cost'', JNull)]]",
          THEN conjunct2, THEN conjunct1, rule_format])
       (simp add: pick_cost_def)
  have c3: "chart_benefit_vs_cost sample_env (JArr ?ps) =
      Inr (Some (benefit_vs_cost_image (data_url_prefix @ b64encode [0x89, 0x50, 0x4E, 0x47, 0x0D])))"
    using chart_benefit_vs_cost_spec[of sample_env ?ps] ne cs[of sample_env] ys[of sample_env] s(1)
    by blast
  have c4: "chart_benefit_vs_cost sample_env_no_render (JArr ?ps) = Inl (LibraryError ''no renderer'')"
    using chart_benefit_vs_cost_spec[of sample_env_no_render ?ps] ne cs[of sample_env_no_render]
      ys[of sample_env_no_render] s(2)
    by blast
  show ?thesis using c1 c2 c3 c4 f unfolding u by simp
qed

lemma cost_lo_hi:
  "1 < cost_lo" "cost_lo < cost_hi" "cost_lo \<noteq> 0" "50 < cost_hi / cost_lo"
  by (simp_all add: cost_lo_def cost_hi_def field_simps)

lemma round_cost_ratio: "round_double (cost_hi / cost_lo) = 50"
proof -
  let ?x = "cost_hi / cost_lo"
  have p: "(2::real) powr (- 47) = 1 / 2 ^ 47" by (simp add: powr_minus_divide)
  have "round_double ?x = of_int (50 * 2 ^ 47) * 2 powr of_int (5 - 52)"
  proof (rule round_double_nearest)
    show "2 powr real_of_int 5 \<le> \<bar>?x\<bar>"
      by (simp add: cost_lo_def cost_hi_def field_simps)
    show "\<bar>?x\<bar> < 2 powr real_of_int (5 + 1)"
      by (simp add: cost_lo_def cost_hi_def field_simps)
    show "- 1022 \<le> (5::int)" by simp
    show "\<bar>?x / 2 powr real_of_int (5 - 52) - real_of_int (50 * 2 ^ 47)\<bar> < 1 / 2"
      by (simp add: cost_lo_def cost_hi_def p field_simps abs_less_iff)
  qed
  then show ?thesis by (simp add: p)
qed

lemma round_double_tie: "round_double 9007199254740993 = 9007199254740992"
proof -
  let ?x = "9007199254740993 :: real"
  have e: "ulp_exponent ?x = 53 - 52"
    by (rule ulp_exponent_eq) simp_all
  have fl: "\<lfloor>?x / 2\<rfloor> = 4503599627370496"
    by (rule floor_unique) simp_all
  have "round_half_even (?x / 2) = 4503599627370496"
    by (simp add: round_half_even_def fl Let_def)
  then show ?thesis by (simp add: round_double_def e)
qed

text \<open>
  The claim as stated fails in exact arithmetic. For the costs 1.0000000000000002 and
  50.000000000000014 the ratio of the largest to the smallest floored cost exceeds 50,
  its double is 50.0, and the axis stays linear. For the cost 9007199254740993 the
  x-coordinate is the double 9007199254740992.
\<close>

theorem ratio_above_50_linear_axis:
  "50 < cost_hi / cost_lo \<and>
   benefit_vs_cost_fig sample_env
     (JArr [JObj [(''cost'', JFloat (Fin cost_lo))], JObj [(''cost'', JFloat (Fin cost_hi))]]) =
     Inr \<lparr>content = Scatter [Fin cost_lo, Fin cost_hi] [Fin 0, Fin 0] [''?'', ''?''],
          log_x = False, x_label = ''Cost (USD)'', y_label = ''Benefit (risk reduction)'',
          fig_title = ''Benefit vs Cost of Selected Strategies''\<rparr> \<and>
   pick_cost sample_env (JObj [(''cost'', JInt 9007199254740993)]) = Inr (Fin 9007199254740992)"
proof -
  have o: "\<not> cost_hi < cost_lo" "\<not> cost_lo < 1" using cost_lo_hi by simp_all
  have t: "to_float (cost_hi / cost_lo) = Fin 50"
    by (simp add: to_float_def round_cost_ratio Let_def)
  have f: "benefit_vs_cost_fig sample_env
     (JArr [JObj [(''cost'', JFloat (Fin cost_lo))], JObj [(''cost'', JFloat (Fin cost_hi))]]) =
     Inr \<lparr>content = Scatter [Fin cost_lo, Fin cost_hi] [Fin 0, Fin 0] [''?'', ''?''],
          log_x = False, x_label = ''Cost (USD)'', y_label = ''Benefit (risk reduction)'',
          fig_title = ''Benefit vs Cost of Selected Strategies''\<rparr>"
    using cost_lo_hi o
    by (simp add: benefit_vs_cost_fig_def pick_cost_def pick_benefit_def pick_id_def
        max2_def fgt_def t)
  have i: "pick_cost sample_env (JObj [(''cost'', JInt 9007199254740993)]) = Inr (Fin 9007199254740992)"
    by (simp add: pick_cost_def round_double_tie)
  show ?thesis using cost_lo_hi(4) f i by blast
qed

subsection \<open>The relationship graph and the optional networkx\_mcp calls\<close>

lemma py_float_cong:
  fixes E :: "'s env" and E' :: "'t env"
  assumes "float_of_str E' = float_of_str E"
  shows "py_float E' v = py_float E v"
  using assms by (cases v) simp_all

lemma py_str_cong:
  fixes E :: "'s env" and E' :: "'t env"
  assumes "repr E' = repr E"
  shows "py_str E' v = py_str E v"
  using assms by (cases v) simp_all

lemma pick_fields_cong:
  fixes E :: "'s env" and E' :: "'t env"
  assumes "float_of_str E' = float_of_str E" and "repr E' = repr E"
  shows "pick_cost E' = pick_cost E" and "pick_benefit E' = pick_benefit E"
    and "graph_cost E' = graph_cost E" and "site_risk E' = site_risk E"
    and "pick_id E' = pick_id E"
proof -
  have f: "py_float E' = py_float E" by (rule ext) (rule py_float_cong[OF assms(1)])
  have s: "py_str E' = py_str E" by (rule ext) (rule py_str_cong[OF assms(2)])
  show "pick_cost E' = pick_cost E" by (rule ext) (simp add: pick_cost_def f)
  show "pick_benefit E' = pick_benefit E" by (rule ext) (simp add: pick_benefit_def f)
  show "graph_cost E' = graph_cost E" by (rule ext) (simp add: graph_cost_def f)
  show "site_risk E' = site_risk E" by (rule ext) (simp add: site_risk_def f)
  show "pick_id E' = pick_id E" by (rule ext) (simp add: pick_id_def s)
qed

lemma add_picks_cong:
  fixes E :: "'s env" and E' :: "'t env"
  assumes "float_of_str E' = float_of_str E" and "repr E' = repr E"
  shows "add_picks E' ps G = add_picks E ps G"
  by (induction ps arbitrary: G) (simp_all add: pick_fields_cong[OF assms])

lemma builders_cong:
  fixes E :: "'s env" and E' :: "'t env"
  assumes "float_of_str E' = float_of_str E" and "repr E' = repr E"
    and "savefig E' = savefig E" and "nx_available E' = nx_available E"
    and "spring_layout E' = spring_layout E"
  shows "chart_benefit_vs_cost E' picks = chart_benefit_vs_cost E picks"
    and "chart_risk_distribution E' sites = chart_risk_distribution E sites"
    and "chart_optimization_graph E' picks = chart_optimization_graph E picks"
proof -
  note pf = pick_fields_cong[OF assms(1,2)]
  have u: "fig_to_data_url E' = fig_to_data_url E"
    by (rule ext) (simp add: fig_to_data_url_def assms(3))
  show "chart_benefit_vs_cost E' picks = chart_benefit_vs_cost E picks"
    by (simp add: chart_benefit_vs_cost_def benefit_vs_cost_fig_def pf u)
  show "chart_risk_distribution E' sites = chart_risk_distribution E sites"
    by (simp add: chart_risk_distribution_def site_risks_def pf u cong: if_cong)
  have "render_graph E' picks = render_graph E picks"
    by (simp add: render_graph_def add_picks_cong[OF assms(1,2)] assms(5) u)
  then show "chart_optimization_graph E' picks = chart_optimization_graph E picks"
    by (simp add: chart_optimization_graph_unfold assms(4))
qed

text \<open>
  Claim C5: two runs on the same input whose environments differ only in the optional
  networkx\_mcp interface (whether it was importable, and what its calls do, failures
  included) produce the same images and the same count, and end the same way; the
  documents they write differ in the \<^verbatim>\<open>nx_mcp_used\<close> flag only.
\<close>

theorem mcp_changes_flag_only:
  fixes E :: "'s env" and E' :: "'t env"
  assumes "stdin_decode E' = stdin_decode E"
    and "json_loads E' = json_loads E" and "float_of_str E' = float_of_str E"
    and "repr E' = repr E" and "savefig E' = savefig E"
    and "nx_available E' = nx_available E" and "spring_layout E' = spring_layout E"
  shows "images_view (main E' inp) = images_view (main E inp) \<and>
         (\<forall>d. main E inp = Inr d \<longrightarrow> main E' inp = Inr (d\<lparr>nx_mcp_used := HAS_NX_MCP E'\<rparr>))"
proof -
  note b = builders_cong[OF assms(3-7)]
  have r: "read_input E' inp = read_input E inp"
    by (simp add: read_input_def assms(1,2) cong: if_cong)
  show ?thesis
  proof (cases "read_input E inp")
    case (Inl e)
    then show ?thesis using r by (simp add: main_def images_view_def)
  next
    case (Inr ps)
    obtain picks sites where ps: "ps = (picks, sites)" by (cases ps)
    have "read_input E inp = Inr (picks, sites)" "read_input E' inp = Inr (picks, sites)"
      using Inr r ps by simp_all
    then show ?thesis
      by (simp add: main_of_read_input b images_view_def)
  qed
qed

theorem mcp_changes_flag_only_witness:
  "HAS_NX_MCP sample_env_mcp_down \<and> \<not> HAS_NX_MCP sample_env \<and>
   mcp_mirror sample_env_mcp_down (JArr [sample_pick]) = Inl (LibraryError ''server down'') \<and>
   (\<exists>c1 c3. images_view (main sample_env sample_input) = Inr ([c1, c3], 2) \<and>
      images_view (main sample_env_mcp_down sample_input) = Inr ([c1, c3], 2) \<and>
      main sample_env_mcp_down sample_input = Inr \<lparr>images = [c1, c3], nx_mcp_used = True, count = 2\<rparr>)"
proof -
  have h: "HAS_NX_MCP sample_env_mcp_down" "\<not> HAS_NX_MCP sample_env"
    "mcp_mirror sample_env_mcp_down (JArr [sample_pick]) = Inl (LibraryError ''server down'')"
    by (simp_all add: sample_env_mcp_down_def sample_env_def mcp_mirror_def)
  have "images_view (main sample_env_mcp_down sample_input) = images_view (main sample_env sample_input) \<and>
     (\<forall>d. main sample_env sample_input = Inr d \<longrightarrow>
        main sample_env_mcp_down sample_input = Inr (d\<lparr>nx_mcp_used := HAS_NX_MCP sample_env_mcp_down\<rparr>))"
    by (rule mcp_changes_flag_only) (simp_all add: sample_env_mcp_down_def)
  then show ?thesis using h by (simp add: sample_main images_view_def)
qed

text \<open>
  Claim C6 says that the input with the single pick A (cost 100, benefit 0.5) and no
  sites gives exactly two images, the cost/benefit chart and the relationship graph, and
  a count of 2. The relationship graph is behind the guard \<^verbatim>\<open>nx is None\<close>. When
  rendering succeeds, the run gives these two images if networkx is importable and its
  layout succeeds, and the cost/benefit chart alone, with a count of 1, if networkx is
  not importable.
\<close>

theorem single_pick_two_images:
  assumes "stdin_decode E inp = Inr raw" and "raw \<noteq> []"
    and "json_loads E raw = Inr (JObj kvs)"
    and "map_of kvs ''picks'' = Some (JArr [sample_pick])"
    and "map_of kvs ''sites'' = Some (JArr []) \<or> map_of kvs ''sites'' = None"
    and "\<forall>fig. \<exists>png. savefig E fig = Inr png"
  shows "(nx_available E \<and> (\<forall>G. \<exists>pos. spring_layout E G = Inr pos) \<longrightarrow>
           (\<exists>u1 u3. main E inp =
              Inr \<lparr>images = [benefit_vs_cost_image u1, strategy_graph_image u3],
                   nx_mcp_used = HAS_NX_MCP E, count = 2\<rparr>)) \<and>
         (\<not> nx_available E \<longrightarrow>
           (\<exists>u1. main E inp =
              Inr \<lparr>images = [benefit_vs_cost_image u1],
                   nx_mcp_used = HAS_NX_MCP E, count = 1\<rparr>))"
proof -
  have u: "\<exists>url. fig_to_data_url E fig = Inr url" for fig
    using assms(6) by (metis bind_res_simps(2) fig_to_data_url_def)
  have r: "read_input E inp = Inr (JArr [sample_pick], JArr [])"
    using read_input_object[OF assms(1-3)] assms(4,5) by (auto simp: or_empty_list_def)
  have cs: "map_res (pick_cost E) [sample_pick] = Inr [Fin 100]"
    and ys: "map_res (pick_benefit E) [sample_pick] = Inr [Fin (1 / 2)]"
    by (simp_all add: sample_pick_def pick_cost_def pick_benefit_def round_double_numeral)
  obtain fig1 where f1: "benefit_vs_cost_fig E (JArr [sample_pick]) = Inr fig1"
    using benefit_vs_cost_fig_total[OF _ cs ys] by auto
  obtain u1 where u1: "fig_to_data_url E fig1 = Inr u1" using u by blast
  have c1: "chart_benefit_vs_cost E (JArr [sample_pick]) = Inr (Some (benefit_vs_cost_image u1))"
    by (simp add: chart_benefit_vs_cost_of_fig f1 u1)
  have c2: "chart_risk_distribution E (JArr []) = Inr None"
    by (simp add: chart_risk_distribution_def)
  have two: "\<exists>u1 u3. main E inp =
              Inr \<lparr>images = [benefit_vs_cost_image u1, strategy_graph_image u3],
                   nx_mcp_used = HAS_NX_MCP E, count = 2\<rparr>"
    if nx: "nx_available E" and lay: "\<forall>G. \<exists>pos. spring_layout E G = Inr pos"
  proof -
    let ?G0 = "add_node ''RiskReduction'' (add_node ''Budget'' \<lparr>nodes = [], edges = []\<rparr>)"
    have "\<exists>G. add_picks E [sample_pick] ?G0 = Inr G"
      by (simp add: sample_pick_def pick_id_def graph_cost_def pick_benefit_def round_double_numeral)
    then obtain G where G: "add_picks E [sample_pick] ?G0 = Inr G" by blast
    obtain pos where pos: "spring_layout E G = Inr pos" using lay by blast
    obtain u3 where u3: "fig_to_data_url E
                 \<lparr>content = Network G pos
                    (filter (\<lambda>n. n \<noteq> ''Budget'' \<and> n \<noteq> ''RiskReduction'') (nodes G)),
                  log_x = False, x_label = [], y_label = [],
                  fig_title = ''Strategy Relationship Graph''\<rparr> = Inr u3"
      using u by blast
    have "render_graph E (JArr [sample_pick]) = Inr (strategy_graph_image u3)"
      unfolding render_graph_def strategy_graph_image_def
      by (simp only: py_iter.simps bind_res_simps G pos u3)
    then have c3: "chart_optimization_graph E (JArr [sample_pick]) = Inr (Some (strategy_graph_image u3))"
      using nx by (simp add: chart_optimization_graph_unfold)
    have "main E inp = Inr \<lparr>images = [benefit_vs_cost_image u1, strategy_graph_image u3],
                   nx_mcp_used = HAS_NX_MCP E, count = 2\<rparr>"
      by (simp add: main_of_read_input[OF r] c1 c2 c3 produced_def)
    then show ?thesis by blast
  qed
  have one: "\<exists>u1. main E inp =
              Inr \<lparr>images = [benefit_vs_cost_image u1],
                   nx_mcp_used = HAS_NX_MCP E, count = 1\<rparr>"
    if nx: "\<not> nx_available E"
  proof -
    have c3: "chart_optimization_graph E (JArr [sample_pick]) = Inr None"
      using nx by (simp add: chart_optimization_graph_unfold)
    have "main E inp = Inr \<lparr>images = [benefit_vs_cost_image u1],
                   nx_mcp_used = HAS_NX_MCP E, count = 1\<rparr>"
      by (simp add: main_of_read_input[OF r] c1 c2 c3 produced_def)
    then show ?thesis by blast
  qed
  show ?thesis using two one by blast
qed

lemma sample_doc_fields:
  "map_of [(''picks'', JArr [sample_pick]), (''sites'', JArr [])] ''picks'' = Some (JArr [sample_pick])"
  "map_of [(''picks'', JArr [sample_pick]), (''sites'', JArr [])] ''sites'' = Some (JArr [])"
  by simp_all

theorem single_pick_two_images_witness:
  "stdin_decode sample_env sample_input = Inr sample_text \<and>
   json_loads sample_env sample_text = Inr sample_doc \<and>
   nx_available sample_env \<and> \<not> nx_available sample_env_no_nx \<and>
   (\<exists>u1 u3. main sample_env sample_input =
      Inr \<lparr>images = [benefit_vs_cost_image u1, strategy_graph_image u3],
           nx_mcp_used = False, count = 2\<rparr>) \<and>
   (\<exists>u1. main sample_env_no_nx sample_input =
      Inr \<lparr>images = [benefit_vs_cost_image u1], nx_mcp_used = False, count = 1\<rparr>)"
proof -
  have e: "stdin_decode sample_env_no_nx = stdin_decode sample_env"
    "json_loads sample_env_no_nx = json_loads sample_env"
    "savefig sample_env_no_nx = savefig sample_env"
    "\<not> nx_available sample_env_no_nx" "\<not> HAS_NX_MCP sample_env_no_nx"
    by (simp_all add: sample_env_no_nx_def sample_env_def)
  have s: "\<forall>fig. \<exists>png. savefig sample_env fig = Inr png"
    "nx_available sample_env" "\<forall>G. \<exists>pos. spring_layout sample_env G = Inr pos"
    "\<not> HAS_NX_MCP sample_env"
    by (simp_all add: sample_env_def)
  have l: "json_loads sample_env sample_text =
      Inr (JObj [(''picks'', JArr [sample_pick]), (''sites'', JArr [])])"
    using sample_loads(4) by (simp add: sample_doc_def)
  have a: "\<exists>u1 u3. main sample_env sample_input =
      Inr \<lparr>images = [benefit_vs_cost_image u1, strategy_graph_image u3],
           nx_mcp_used = HAS_NX_MCP sample_env, count = 2\<rparr>"
    using single_pick_two_images[OF sample_decode(5) sample_text_neq(1) l sample_doc_fields(1)
        disjI1[OF sample_doc_fields(2)] s(1)] s(2,3)
    by blast
  have b: "\<exists>u1. main sample_env_no_nx sample_input =
      Inr \<lparr>images = [benefit_vs_cost_image u1],
           nx_mcp_used = HAS_NX_MCP sample_env_no_nx, count = 1\<rparr>"
    using single_pick_two_images[of sample_env_no_nx sample_input sample_text,
        OF _ sample_text_neq(1) _ sample_doc_fields(1) disjI1[OF sample_doc_fields(2)]]
      sample_decode(5) l s(1) e
    by simp
  show ?thesis using a b sample_decode(5) sample_loads(4) s(2,4) e(4,5) by simp
qed

text \<open>The claim as stated fails on a machine without networkx: one image, count 1.\<close>

theorem single_pick_without_networkx:
  "stdin_decode sample_env_no_nx sample_input = Inr sample_text \<and>
   json_loads sample_env_no_nx sample_text = Inr sample_doc \<and>
   main sample_env_no_nx sample_input =
     Inr \<lparr>images = [\<lparr>title = ''Benefit vs Cost'',
                      description = ''Scatter plot of strategy cost vs expected risk reduction.'',
                      dataUrl = ''data:image/png;base64,iVBORw0=''\<rparr>],
          nx_mcp_used = False, count = 1\<rparr>"
proof -
  have e: "stdin_decode sample_env_no_nx = stdin_decode sample_env"
    "json_loads sample_env_no_nx = json_loads sample_env"
    "\<not> nx_available sample_env_no_nx" "\<not> HAS_NX_MCP sample_env_no_nx"
    by (simp_all add: sample_env_no_nx_def sample_env_def)
  have u: "fig_to_data_url sample_env_no_nx fig = Inr ''data:image/png;base64,iVBORw0=''" for fig
    by (simp add: fig_to_data_url_def sample_env_no_nx_def sample_env_def data_url_prefix_def
        b64_char_def b64_alphabet_def Let_def)
  have c1: "chart_benefit_vs_cost sample_env_no_nx (JArr [sample_pick]) =
     Inr (Some (benefit_vs_cost_image ''data:image/png;base64,iVBORw0=''))"
    by (simp add: chart_benefit_vs_cost_def benefit_vs_cost_fig_def sample_pick_def pick_cost_def
        pick_benefit_def pick_id_def u round_double_numeral max2_def fgt_def
        benefit_vs_cost_image_def)
  have r: "read_input sample_env_no_nx sample_input = Inr (JArr [sample_pick], JArr [])"
    using sample_read_input by (simp add: read_input_def e cong: if_cong)
  have c2: "chart_risk_distribution sample_env_no_nx (JArr []) = Inr None"
    by (simp add: chart_risk_distribution_def)
  have c3: "chart_optimization_graph sample_env_no_nx (JArr [sample_pick]) = Inr None"
    by (simp add: chart_optimization_graph_def e)
  have "main sample_env_no_nx sample_input =
     Inr \<lparr>images = [benefit_vs_cost_image ''data:image/png;base64,iVBORw0=''],
          nx_mcp_used = False, count = 1\<rparr>"
    by (simp add: main_of_read_input[OF r] c1 c2 c3 produced_def e)
  then show ?thesis
    using sample_decode(5) sample_loads(4) by (simp add: e benefit_vs_cost_image_def)
qed

end
